theory Spec2Isabelle
  imports Complex_Main "HOL-Library.Product_Lexorder" "HOL-Library.List_Lexorder"
    "HOL-Library.Char_ord"
begin

section \<open>Data model: cells, tables, column access\<close>

text \<open>
  \<^verbatim>\<open>app.py\<close> is one straight-line script over a pandas DataFrame \<^verbatim>\<open>df\<close>. A cell of
  the frame is a missing value (NaN, NaT, None), a number, a string or a timestamp.
  Numbers are exact rationals here: the rounding of binary floating point and the
  values \<^verbatim>\<open>inf\<close> and \<^verbatim>\<open>-inf\<close> are not part of the model. A timestamp is a count of
  nanoseconds on the time line, so it carries its time of day. A string is its UTF-8
  bytes.
\<close>

datatype cell = Null | Num rat | Str string | Ts int

text \<open>The exceptions the script can raise, by their Python class.\<close>

datatype error =
  KeyError | AttributeError | TypeError | ValueError | IndexError | ZeroDivisionError

text \<open>
  A frame is its header, in order, and its rows, in order. pandas allows a label to
  occur several times in the header, so the header is a list and not a set. A frame is
  rectangular; a row is read at the width of the header, a cell beyond its end being
  missing.
\<close>

record table =
  columns :: "string list"
  rows :: "cell list list"

definition cell_at :: "cell list \<Rightarrow> nat \<Rightarrow> cell" where
  "cell_at r i = (if i < length r then r ! i else Null)"

definition pad :: "nat \<Rightarrow> cell list \<Rightarrow> cell list" where
  "pad n r = take n r @ replicate (n - length r) Null"

fun positions_from :: "nat \<Rightarrow> string \<Rightarrow> string list \<Rightarrow> nat list" where
  "positions_from n c [] = []"
| "positions_from n c (h # hs) =
     (if h = c then n # positions_from (Suc n) c hs else positions_from (Suc n) c hs)"

definition positions :: "string \<Rightarrow> string list \<Rightarrow> nat list" where
  "positions c cs = positions_from 0 c cs"

text \<open>
  \<^verbatim>\<open>df[c]\<close> is a Series when the label \<open>c\<close> names one column and a DataFrame when it
  names several; with no such column \<^verbatim>\<open>df[c]\<close> raises KeyError and \<^verbatim>\<open>df.get(c, d)\<close>
  gives \<open>d\<close>.
\<close>

datatype selection = Missing | Series "cell list" | Frame

definition getitem :: "table \<Rightarrow> string \<Rightarrow> selection" where
  "getitem df c =
     (case positions c (columns df) of
        [] \<Rightarrow> Missing
      | [i] \<Rightarrow> Series (map (\<lambda>r. cell_at r i) (rows df))
      | _ \<Rightarrow> Frame)"

text \<open>
  A Series method called on \<^verbatim>\<open>df[c]\<close>: KeyError without the column; with a
  duplicated label the DataFrame in place of the Series makes the statement fail with
  a TypeError (the f-string cannot format the Series that the method then returns).
\<close>

definition series :: "table \<Rightarrow> string \<Rightarrow> error + cell list" where
  "series df c =
     (case getitem df c of
        Missing \<Rightarrow> Inl KeyError
      | Series xs \<Rightarrow> Inr xs
      | Frame \<Rightarrow> Inl TypeError)"

text \<open>
  \<^verbatim>\<open>df[c] = values\<close>: a new column is appended at the right, an existing one is
  overwritten in place (every column of that label when there are several).
\<close>

definition setitem :: "table \<Rightarrow> string \<Rightarrow> cell list \<Rightarrow> table" where
  "setitem df c vs =
     (let n = length (columns df); ps = positions c (columns df) in
      if ps = []
      then \<lparr>columns = columns df @ [c],
            rows = map (\<lambda>(r, v). pad n r @ [v]) (zip (rows df) vs)\<rparr>
      else \<lparr>columns = columns df,
            rows = map (\<lambda>(r, v). fold (\<lambda>i r'. r'[i := v]) ps (pad n r)) (zip (rows df) vs)\<rparr>)"

text \<open>\<^verbatim>\<open>df[mask]\<close> with a boolean Series keeps the rows whose mask entry is true.\<close>

definition boolean_index :: "table \<Rightarrow> bool list \<Rightarrow> table" where
  "boolean_index df keep = df\<lparr>rows := map fst (filter snd (zip (rows df) keep))\<rparr>"

section \<open>Loading and normalising (lines 11 to 44)\<close>

definition hdr_assign_date :: string where
  "hdr_assign_date =
     ''MX02:'' @ [CHR 0xE0, CHR 0xB8, CHR 0xA7, CHR 0xE0, CHR 0xB8, CHR 0xB1, CHR 0xE0,
     CHR 0xB8, CHR 0x99, CHR 0xE0, CHR 0xB8, CHR 0x97, CHR 0xE0, CHR 0xB8, CHR 0xB5, CHR
     0xE0, CHR 0xB9, CHR 0x88, CHR 0xE0, CHR 0xB8, CHR 0xA1, CHR 0xE0, CHR 0xB8, CHR
     0xAD, CHR 0xE0, CHR 0xB8, CHR 0x9A, CHR 0xE0, CHR 0xB8, CHR 0xAB, CHR 0xE0, CHR
     0xB8, CHR 0xA1, CHR 0xE0, CHR 0xB8, CHR 0xB2, CHR 0xE0, CHR 0xB8, CHR 0xA2, CHR
     0xE0, CHR 0xB8, CHR 0x87, CHR 0xE0, CHR 0xB8, CHR 0xB2, CHR 0xE0, CHR 0xB8, CHR
     0x99]"

definition hdr_num_deliveries :: string where
  "hdr_num_deliveries =
     ''MX12:'' @ [CHR 0xE0, CHR 0xB8, CHR 0x88, CHR 0xE0, CHR 0xB8, CHR 0xB3, CHR 0xE0,
     CHR 0xB8, CHR 0x99, CHR 0xE0, CHR 0xB8, CHR 0xA7, CHR 0xE0, CHR 0xB8, CHR 0x99, CHR
     0xE0, CHR 0xB9, CHR 0x83, CHR 0xE0, CHR 0xB8, CHR 0x9A, CHR 0xE0, CHR 0xB8, CHR
     0x99, CHR 0xE0, CHR 0xB8, CHR 0xB3, CHR 0xE0, CHR 0xB8, CHR 0xAA, CHR 0xE0, CHR
     0xB9, CHR 0x88, CHR 0xE0, CHR 0xB8, CHR 0x87] @ '' ('' @ [CHR 0xE0, CHR 0xB9, CHR
     0x83, CHR 0xE0, CHR 0xB8, CHR 0x9A] @ '')''"

definition hdr_num_items :: string where
  "hdr_num_items =
     ''MX12:'' @ [CHR 0xE0, CHR 0xB8, CHR 0x88, CHR 0xE0, CHR 0xB8, CHR 0xB3, CHR 0xE0,
     CHR 0xB8, CHR 0x99, CHR 0xE0, CHR 0xB8, CHR 0xA7, CHR 0xE0, CHR 0xB8, CHR 0x99, CHR
     0xE0, CHR 0xB8, CHR 0xAA, CHR 0xE0, CHR 0xB8, CHR 0xB4, CHR 0xE0, CHR 0xB8, CHR
     0x99, CHR 0xE0, CHR 0xB8, CHR 0x84, CHR 0xE0, CHR 0xB9, CHR 0x89, CHR 0xE0, CHR
     0xB8, CHR 0xB2] @ '' ('' @ [CHR 0xE0, CHR 0xB8, CHR 0xA3, CHR 0xE0, CHR 0xB8, CHR
     0xB2, CHR 0xE0, CHR 0xB8, CHR 0xA2, CHR 0xE0, CHR 0xB8, CHR 0x81, CHR 0xE0, CHR
     0xB8, CHR 0xB2, CHR 0xE0, CHR 0xB8, CHR 0xA3] @ '')''"

definition hdr_total_cost :: string where
  "hdr_total_cost =
     ''MX12:'' @ [CHR 0xE0, CHR 0xB8, CHR 0x84, CHR 0xE0, CHR 0xB9, CHR 0x88, CHR 0xE0,
     CHR 0xB8, CHR 0xB2, CHR 0xE0, CHR 0xB9, CHR 0x80, CHR 0xE0, CHR 0xB8, CHR 0x97, CHR
     0xE0, CHR 0xB8, CHR 0xB5, CHR 0xE0, CHR 0xB9, CHR 0x88, CHR 0xE0, CHR 0xB8, CHR
     0xA2, CHR 0xE0, CHR 0xB8, CHR 0xA7, CHR 0xE0, CHR 0xB8, CHR 0x82, CHR 0xE0, CHR
     0xB8, CHR 0x99, CHR 0xE0, CHR 0xB8, CHR 0xAA, CHR 0xE0, CHR 0xB9, CHR 0x88, CHR
     0xE0, CHR 0xB8, CHR 0x87] @ '' ('' @ [CHR 0xE0, CHR 0xB8, CHR 0x9A, CHR 0xE0, CHR
     0xB8, CHR 0xB2, CHR 0xE0, CHR 0xB8, CHR 0x97] @ '')''"

definition hdr_additional_cost :: string where
  "hdr_additional_cost =
     ''MX12:'' @ [CHR 0xE0, CHR 0xB8, CHR 0x84, CHR 0xE0, CHR 0xB9, CHR 0x88, CHR 0xE0,
     CHR 0xB8, CHR 0xB2, CHR 0xE0, CHR 0xB9, CHR 0x80, CHR 0xE0, CHR 0xB8, CHR 0x97, CHR
     0xE0, CHR 0xB8, CHR 0xB5, CHR 0xE0, CHR 0xB9, CHR 0x88, CHR 0xE0, CHR 0xB8, CHR
     0xA2, CHR 0xE0, CHR 0xB8, CHR 0xA7, CHR 0xE0, CHR 0xB9, CHR 0x80, CHR 0xE0, CHR
     0xB8, CHR 0x9E, CHR 0xE0, CHR 0xB8, CHR 0xB4, CHR 0xE0, CHR 0xB9, CHR 0x88, CHR
     0xE0, CHR 0xB8, CHR 0xA1, CHR 0xE0, CHR 0xB9, CHR 0x80, CHR 0xE0, CHR 0xB8, CHR
     0x95, CHR 0xE0, CHR 0xB8, CHR 0xB4, CHR 0xE0, CHR 0xB8, CHR 0xA1] @ '' ('' @ [CHR
     0xE0, CHR 0xB8, CHR 0x9A, CHR 0xE0, CHR 0xB8, CHR 0xB2, CHR 0xE0, CHR 0xB8, CHR
     0x97] @ '')''"

definition hdr_route_name :: string where
  "hdr_route_name =
     ''MX12:'' @ [CHR 0xE0, CHR 0xB9, CHR 0x80, CHR 0xE0, CHR 0xB8, CHR 0xAA, CHR 0xE0,
     CHR 0xB9, CHR 0x89, CHR 0xE0, CHR 0xB8, CHR 0x99, CHR 0xE0, CHR 0xB8, CHR 0x97, CHR
     0xE0, CHR 0xB8, CHR 0xB2, CHR 0xE0, CHR 0xB8, CHR 0x87, CHR 0xE0, CHR 0xB8, CHR
     0x82, CHR 0xE0, CHR 0xB8, CHR 0x99, CHR 0xE0, CHR 0xB8, CHR 0xAA, CHR 0xE0, CHR
     0xB9, CHR 0x88, CHR 0xE0, CHR 0xB8, CHR 0x87]"

definition hdr_success_count :: string where
  "hdr_success_count =
     ''MX12:nan '' @ [CHR 0xE0, CHR 0xB8, CHR 0xAA, CHR 0xE0, CHR 0xB9, CHR 0x88, CHR
     0xE0, CHR 0xB8, CHR 0x87, CHR 0xE0, CHR 0xB8, CHR 0xAA, CHR 0xE0, CHR 0xB8, CHR
     0xB3, CHR 0xE0, CHR 0xB9, CHR 0x80, CHR 0xE0, CHR 0xB8, CHR 0xA3, CHR 0xE0, CHR
     0xB9, CHR 0x87, CHR 0xE0, CHR 0xB8, CHR 0x88]"

definition hdr_fail_count :: string where
  "hdr_fail_count =
     ''MX12:nan '' @ [CHR 0xE0, CHR 0xB9, CHR 0x84, CHR 0xE0, CHR 0xB8, CHR 0xA1, CHR
     0xE0, CHR 0xB9, CHR 0x88, CHR 0xE0, CHR 0xB8, CHR 0xAA, CHR 0xE0, CHR 0xB8, CHR
     0xB3, CHR 0xE0, CHR 0xB9, CHR 0x80, CHR 0xE0, CHR 0xB8, CHR 0xA3, CHR 0xE0, CHR
     0xB9, CHR 0x87, CHR 0xE0, CHR 0xB8, CHR 0x88]"

definition COLUMN_MAP :: "(string \<times> string) list" where
  "COLUMN_MAP =
     [(hdr_assign_date, ''assign_date''),
      (''job_id'', ''job_id''),
      (hdr_num_deliveries, ''num_deliveries''),
      (hdr_num_items, ''num_items''),
      (hdr_total_cost, ''total_cost''),
      (hdr_additional_cost, ''additional_cost''),
      (hdr_route_name, ''route_name''),
      (hdr_success_count, ''success_count''),
      (hdr_fail_count, ''fail_count'')]"

text \<open>
  Line 33: the comprehension keeps the entries of \<^verbatim>\<open>COLUMN_MAP\<close> whose key is a header
  of the raw frame, and \<^verbatim>\<open>rename\<close> replaces each such header; every other header
  stays.
\<close>

definition rename_header :: "string \<Rightarrow> string" where
  "rename_header h = (case map_of COLUMN_MAP h of Some new \<Rightarrow> new | None \<Rightarrow> h)"

definition rename :: "table \<Rightarrow> table" where
  "rename df_raw = df_raw\<lparr>columns := map rename_header (columns df_raw)\<rparr>"

text \<open>
  Line 37, \<^verbatim>\<open>pd.to_datetime(..., errors="coerce", dayfirst=True)\<close>, cell by cell: a
  missing value stays missing, a timestamp stays, and any other cell is parsed; the
  parser of pandas is the parameter \<open>date_of\<close>, with \<open>None\<close> for a value it cannot
  read, which \<^verbatim>\<open>coerce\<close> turns into NaT.
\<close>

definition to_datetime :: "(cell \<Rightarrow> int option) \<Rightarrow> cell \<Rightarrow> cell" where
  "to_datetime date_of c =
     (case c of
        Null \<Rightarrow> Null
      | Ts t \<Rightarrow> Ts t
      | _ \<Rightarrow> (case date_of c of None \<Rightarrow> Null | Some t \<Rightarrow> Ts t))"

text \<open>
  Lines 40 and 41, \<^verbatim>\<open>pd.to_numeric(..., errors="coerce")\<close> on a Series, cell by cell: a
  number stays, a missing value stays missing, and any other cell is parsed by the
  parameter \<open>num_of\<close>, with \<open>None\<close> (NaN) for a value that is not numeric. Then
  \<^verbatim>\<open>fillna(0)\<close> replaces every NaN by 0.
\<close>

definition to_numeric :: "(cell \<Rightarrow> rat option) \<Rightarrow> cell \<Rightarrow> cell" where
  "to_numeric num_of c =
     (case c of
        Null \<Rightarrow> Null
      | Num x \<Rightarrow> Num x
      | _ \<Rightarrow> (case num_of c of None \<Rightarrow> Null | Some x \<Rightarrow> Num x))"

definition fillna :: "rat \<Rightarrow> cell \<Rightarrow> cell" where
  "fillna d c = (case c of Null \<Rightarrow> Num d | _ \<Rightarrow> c)"

text \<open>
  \<^verbatim>\<open>pd.to_numeric(df.get(c, 0), errors="coerce").fillna(0)\<close>. Without the column,
  \<^verbatim>\<open>df.get\<close> gives the integer 0, \<^verbatim>\<open>pd.to_numeric\<close> returns a scalar number as it is,
  and the integer has no method \<^verbatim>\<open>fillna\<close>: AttributeError. With a duplicated label,
  \<^verbatim>\<open>df.get\<close> gives a DataFrame, which \<^verbatim>\<open>pd.to_numeric\<close> refuses with a TypeError.
\<close>

definition numeric_column :: "(cell \<Rightarrow> rat option) \<Rightarrow> table \<Rightarrow> string \<Rightarrow> error + cell list" where
  "numeric_column num_of df c =
     (case getitem df c of
        Missing \<Rightarrow> Inl AttributeError
      | Series xs \<Rightarrow> Inr (map (\<lambda>x. fillna 0 (to_numeric num_of x)) xs)
      | Frame \<Rightarrow> Inl TypeError)"

text \<open>
  Line 37 again: with a duplicated label \<^verbatim>\<open>df["assign_date"]\<close> is a DataFrame, which
  \<^verbatim>\<open>pd.to_datetime\<close> tries to assemble from year, month and day columns: ValueError.
\<close>

definition convert_date :: "(cell \<Rightarrow> int option) \<Rightarrow> table \<Rightarrow> error + table" where
  "convert_date date_of df =
     (if ''assign_date'' \<in> set (columns df)
      then (case getitem df ''assign_date'' of
              Series xs \<Rightarrow> Inr (setitem df ''assign_date'' (map (to_datetime date_of) xs))
            | _ \<Rightarrow> Inl ValueError)
      else Inr df)"

text \<open>Line 44: the sum of two numeric cells; NaN if either is missing.\<close>

fun add_cells :: "cell \<Rightarrow> cell \<Rightarrow> cell" where
  "add_cells (Num a) (Num b) = Num (a + b)"
| "add_cells _ _ = Null"

text \<open>Lines 33 to 44, from the raw frame that \<^verbatim>\<open>pd.read_excel\<close> returns.\<close>

definition normalize_df ::
  "(cell \<Rightarrow> int option) \<Rightarrow> (cell \<Rightarrow> rat option) \<Rightarrow> table \<Rightarrow> error + table" where
  "normalize_df date_of num_of df_raw =
     (case convert_date date_of (rename df_raw) of
        Inl e \<Rightarrow> Inl e
      | Inr df1 \<Rightarrow>
     (case numeric_column num_of df1 ''total_cost'' of
        Inl e \<Rightarrow> Inl e
      | Inr tc \<Rightarrow> let df2 = setitem df1 ''total_cost'' tc in
     (case numeric_column num_of df2 ''additional_cost'' of
        Inl e \<Rightarrow> Inl e
      | Inr ac \<Rightarrow> let df3 = setitem df2 ''additional_cost'' ac in
     (case (series df3 ''total_cost'', series df3 ''additional_cost'') of
        (Inr t, Inr a) \<Rightarrow> Inr (setitem df3 ''cost_sum'' (map (\<lambda>(x, y). add_cells x y) (zip t a)))
      | (Inl e, _) \<Rightarrow> Inl e
      | (_, Inl e) \<Rightarrow> Inl e))))"

section \<open>Filters (lines 48 to 58)\<close>

text \<open>
  What \<^verbatim>\<open>st.sidebar.date_input\<close> returns: one date, or a tuple of the dates picked so
  far. Line 51 filters only on a tuple of two dates.
\<close>

datatype date_input = SingleDate int | DateTuple "int list"

text \<open>
  A picked date is a day number. Line 52 turns each end of the range into a timestamp
  with \<^verbatim>\<open>pd.to_datetime\<close>, which gives the midnight that begins the day.
\<close>

definition day_ns :: int where
  "day_ns = 86400000000000"

definition midnight :: "int \<Rightarrow> int" where
  "midnight d = d * day_ns"

text \<open>
  Line 53: the comparisons of a datetime column with a timestamp; NaT compares false.
  After line 37 the column holds timestamps and NaT only.
\<close>

definition in_range :: "int \<Rightarrow> int \<Rightarrow> cell \<Rightarrow> bool" where
  "in_range start_date end_date c =
     (case c of Ts t \<Rightarrow> start_date \<le> t \<and> t \<le> end_date | _ \<Rightarrow> False)"

text \<open>
  Lines 48 to 53. Line 37 has already raised for a duplicated \<^verbatim>\<open>assign_date\<close> label,
  so that case does not reach this block within the script; it is an error here too.
\<close>

definition date_filter :: "date_input \<Rightarrow> table \<Rightarrow> error + table" where
  "date_filter date_range df =
     (if ''assign_date'' \<in> set (columns df)
      then (case getitem df ''assign_date'' of
              Series xs \<Rightarrow>
                (case date_range of
                   DateTuple [d0, d1] \<Rightarrow>
                     (let start_date = midnight d0; end_date = midnight d1 in
                      Inr (boolean_index df (map (in_range start_date end_date) xs)))
                 | _ \<Rightarrow> Inr df)
            | _ \<Rightarrow> Inl ValueError)
      else Inr df)"

text \<open>
  Lines 55 to 58. Line 56 calls \<^verbatim>\<open>dropna().unique()\<close> on \<^verbatim>\<open>df["route_name"]\<close>, which a
  DataFrame (duplicated label) does not have: AttributeError. \<open>route_filter\<close> is the
  list that the multiselect returns; an empty list is false in Python.
\<close>

definition route_filter_step :: "cell list \<Rightarrow> table \<Rightarrow> error + table" where
  "route_filter_step route_filter df =
     (if ''route_name'' \<in> set (columns df)
      then (case getitem df ''route_name'' of
              Series xs \<Rightarrow>
                (if route_filter \<noteq> []
                 then Inr (boolean_index df (map (\<lambda>c. c \<in> set route_filter) xs))
                 else Inr df)
            | _ \<Rightarrow> Inl AttributeError)
      else Inr df)"

definition apply_filters :: "date_input \<Rightarrow> cell list \<Rightarrow> table \<Rightarrow> error + table" where
  "apply_filters date_range route_filter df =
     (case date_filter date_range df of
        Inl e \<Rightarrow> Inl e
      | Inr df' \<Rightarrow> route_filter_step route_filter df')"

section \<open>Series reductions\<close>

text \<open>
  \<^verbatim>\<open>nunique\<close> counts the distinct values that are not missing. \<^verbatim>\<open>sum\<close> and \<^verbatim>\<open>mean\<close>
  skip missing values; the sum of no value is 0 and the mean of no value is NaN
  (\<open>None\<close>). On a column that holds a string or a timestamp the script does not
  get a number to format and fails; that is TypeError here.
\<close>

definition nunique :: "cell list \<Rightarrow> nat" where
  "nunique xs = length (remdups (filter (\<lambda>c. c \<noteq> Null) xs))"

fun numeric :: "cell \<Rightarrow> bool" where
  "numeric Null = True"
| "numeric (Num x) = True"
| "numeric _ = False"

fun num_val :: "cell \<Rightarrow> rat" where
  "num_val (Num x) = x"
| "num_val _ = 0"

fun is_number :: "cell \<Rightarrow> bool" where
  "is_number (Num x) = True"
| "is_number _ = False"

definition sum_series :: "cell list \<Rightarrow> error + rat" where
  "sum_series xs =
     (if list_all numeric xs then Inr (sum_list (map num_val xs)) else Inl TypeError)"

definition mean_series :: "cell list \<Rightarrow> error + rat option" where
  "mean_series xs =
     (if list_all numeric xs
      then (let n = length (filter is_number xs) in
            Inr (if n = 0 then None else Some (sum_list (map num_val xs) / of_nat n)))
      else Inl TypeError)"

text \<open>
  \<^verbatim>\<open>groupby\<close>: the group keys are the distinct values of the key column that are not
  missing, sorted (numbers before strings); the group of a key holds the entries of a
  column on the rows where the key column has that key.
\<close>

fun cell_key :: "cell \<Rightarrow> nat \<times> rat \<times> string" where
  "cell_key Null = (3, 0, [])"
| "cell_key (Num x) = (0, x, [])"
| "cell_key (Str s) = (1, 0, s)"
| "cell_key (Ts t) = (2, of_int t, [])"

definition group_keys :: "cell list \<Rightarrow> cell list" where
  "group_keys ks = sort_key cell_key (remdups (filter (\<lambda>c. c \<noteq> Null) ks))"

definition group_of :: "cell list \<Rightarrow> cell \<Rightarrow> cell list \<Rightarrow> cell list" where
  "group_of ks k xs = map snd (filter (\<lambda>(k', x). k' = k) (zip ks xs))"

fun collect :: "(error + 'a) list \<Rightarrow> error + 'a list" where
  "collect [] = Inr []"
| "collect (Inl e # rs) = Inl e"
| "collect (Inr x # rs) = (case collect rs of Inl e \<Rightarrow> Inl e | Inr xs \<Rightarrow> Inr (x # xs))"

section \<open>Section 1: operational summary (lines 63 to 73)\<close>

record summary =
  total_jobs :: nat
  total_deliveries :: rat
  total_items :: rat

definition operational_summary :: "table \<Rightarrow> error + summary" where
  "operational_summary df =
     (case series df ''job_id'' of
        Inl e \<Rightarrow> Inl e
      | Inr js \<Rightarrow>
     (case series df ''num_deliveries'' of
        Inl e \<Rightarrow> Inl e
      | Inr ds \<Rightarrow>
     (case sum_series ds of
        Inl e \<Rightarrow> Inl e
      | Inr d \<Rightarrow>
     (case series df ''num_items'' of
        Inl e \<Rightarrow> Inl e
      | Inr its \<Rightarrow>
     (case sum_series its of
        Inl e \<Rightarrow> Inl e
      | Inr i \<Rightarrow> Inr \<lparr>total_jobs = nunique js, total_deliveries = d, total_items = i\<rparr>)))))"

record trend_row =
  date :: cell
  jobs :: nat
  deliveries :: rat
  items :: rat

definition trend_group :: "cell list \<Rightarrow> cell list \<Rightarrow> cell list \<Rightarrow> cell list \<Rightarrow> cell \<Rightarrow> error + trend_row" where
  "trend_group ks js ds its k =
     (case sum_series (group_of ks k ds) of
        Inl e \<Rightarrow> Inl e
      | Inr d \<Rightarrow>
     (case sum_series (group_of ks k its) of
        Inl e \<Rightarrow> Inl e
      | Inr i \<Rightarrow> Inr \<lparr>date = k, jobs = nunique (group_of ks k js), deliveries = d, items = i\<rparr>))"

text \<open>
  Lines 68 to 73; \<open>None\<close> when the block is skipped. The named aggregation raises
  KeyError for a column that does not exist, whether or not there is a group.
\<close>

definition trend_df :: "table \<Rightarrow> error + trend_row list option" where
  "trend_df df =
     (if ''assign_date'' \<in> set (columns df)
      then (case getitem df ''assign_date'' of
              Series ks \<Rightarrow>
                (case series df ''job_id'' of
                   Inl e \<Rightarrow> Inl e
                 | Inr js \<Rightarrow>
                (case series df ''num_deliveries'' of
                   Inl e \<Rightarrow> Inl e
                 | Inr ds \<Rightarrow>
                (case series df ''num_items'' of
                   Inl e \<Rightarrow> Inl e
                 | Inr its \<Rightarrow>
                (case collect (map (trend_group ks js ds its) (group_keys ks)) of
                   Inl e \<Rightarrow> Inl e
                 | Inr t \<Rightarrow> Inr (Some t)))))
            | _ \<Rightarrow> Inl ValueError)
      else Inr None)"

section \<open>Section 2: cost analysis (lines 88 to 95)\<close>

record cost_view =
  total_cost_sum :: rat
  avg_cost_job :: "rat option"
  base_cost :: rat
  additional_cost :: rat

definition cost_analysis :: "table \<Rightarrow> error + cost_view" where
  "cost_analysis df =
     (case series df ''cost_sum'' of
        Inl e \<Rightarrow> Inl e
      | Inr cs \<Rightarrow>
     (case sum_series cs of
        Inl e \<Rightarrow> Inl e
      | Inr tsum \<Rightarrow>
     (case mean_series cs of
        Inl e \<Rightarrow> Inl e
      | Inr avg \<Rightarrow>
     (case series df ''total_cost'' of
        Inl e \<Rightarrow> Inl e
      | Inr tc \<Rightarrow>
     (case sum_series tc of
        Inl e \<Rightarrow> Inl e
      | Inr base \<Rightarrow>
     (case series df ''additional_cost'' of
        Inl e \<Rightarrow> Inl e
      | Inr ac \<Rightarrow>
     (case sum_series ac of
        Inl e \<Rightarrow> Inl e
      | Inr extra \<Rightarrow>
          Inr \<lparr>total_cost_sum = tsum, avg_cost_job = avg, base_cost = base,
               additional_cost = extra\<rparr>)))))))"

section \<open>Section 3: route performance (lines 109 to 165)\<close>

record route_row =
  route_name :: cell
  route_jobs :: nat
  route_cost :: rat
  avg_cost :: "rat option"

definition route_group :: "cell list \<Rightarrow> cell list \<Rightarrow> cell list \<Rightarrow> cell \<Rightarrow> error + route_row" where
  "route_group ks js cs k =
     (case sum_series (group_of ks k cs) of
        Inl e \<Rightarrow> Inl e
      | Inr tsum \<Rightarrow>
     (case mean_series (group_of ks k cs) of
        Inl e \<Rightarrow> Inl e
      | Inr avg \<Rightarrow>
          Inr \<lparr>route_name = k, route_jobs = nunique (group_of ks k js), route_cost = tsum,
               avg_cost = avg\<rparr>))"

text \<open>
  Lines 111 to 115, reached when \<^verbatim>\<open>route_name\<close> is a column. Grouping by a duplicated
  label raises ValueError.
\<close>

definition route_perf :: "table \<Rightarrow> error + route_row list" where
  "route_perf df =
     (case getitem df ''route_name'' of
        Series ks \<Rightarrow>
          (case series df ''job_id'' of
             Inl e \<Rightarrow> Inl e
           | Inr js \<Rightarrow>
          (case series df ''cost_sum'' of
             Inl e \<Rightarrow> Inl e
           | Inr cs \<Rightarrow> collect (map (route_group ks js cs) (group_keys ks))))
      | Missing \<Rightarrow> Inl KeyError
      | Frame \<Rightarrow> Inl ValueError)"

text \<open>
  Lines 135 to 137: \<^verbatim>\<open>sort_values("avg_cost", ascending=True).head(1)\<close> and then
  \<^verbatim>\<open>iloc[0]\<close>, which raises IndexError on a frame without rows. NaN sorts last.
\<close>

fun avg_key :: "rat option \<Rightarrow> nat \<times> rat" where
  "avg_key None = (1, 0)"
| "avg_key (Some a) = (0, a)"

definition cheapest_route :: "route_row list \<Rightarrow> error + route_row" where
  "cheapest_route rp =
     (case sort_key (\<lambda>g. avg_key (avg_cost g)) rp of
        [] \<Rightarrow> Inl IndexError
      | g # _ \<Rightarrow> Inr g)"

record route_view =
  perf :: "route_row list"
  cheapest :: route_row

definition route_section :: "table \<Rightarrow> error + route_view option" where
  "route_section df =
     (if ''route_name'' \<in> set (columns df)
      then (case route_perf df of
              Inl e \<Rightarrow> Inl e
            | Inr rp \<Rightarrow>
           (case cheapest_route rp of
              Inl e \<Rightarrow> Inl e
            | Inr g \<Rightarrow> Inr (Some \<lparr>perf = rp, cheapest = g\<rparr>)))
      else Inr None)"

section \<open>Section 4: delivery performance (lines 169 to 174)\<close>

record delivery_view =
  success_pct :: rat
  fail_pct :: rat

text \<open>
  Python's \<^verbatim>\<open>/\<close>. On a zero denominator it yields no number: a Python number raises
  ZeroDivisionError, and a numpy scalar gives NaN or an infinity with a warning. The
  model has the exception for both, so a division by zero is never silently a number.
\<close>

definition true_divide :: "rat \<Rightarrow> rat \<Rightarrow> error + rat" where
  "true_divide a b = (if b = 0 then Inl ZeroDivisionError else Inr (a / b))"

text \<open>The expression \<^verbatim>\<open>part / whole * 100\<close> of lines 173 and 174.\<close>

definition percent_of :: "rat \<Rightarrow> rat \<Rightarrow> error + rat" where
  "percent_of part whole =
     (case true_divide part whole of Inl e \<Rightarrow> Inl e | Inr q \<Rightarrow> Inr (q * 100))"

definition delivery_performance :: "table \<Rightarrow> error + delivery_view option" where
  "delivery_performance df =
     (if ''success_count'' \<in> set (columns df) \<and> ''fail_count'' \<in> set (columns df)
      then (case series df ''success_count'' of
              Inl e \<Rightarrow> Inl e
            | Inr ss \<Rightarrow>
           (case sum_series ss of
              Inl e \<Rightarrow> Inl e
            | Inr total_success \<Rightarrow>
           (case series df ''fail_count'' of
              Inl e \<Rightarrow> Inl e
            | Inr fs \<Rightarrow>
           (case sum_series fs of
              Inl e \<Rightarrow> Inl e
            | Inr total_fail \<Rightarrow>
               (let total_deliv = total_success + total_fail in
                (case (if total_deliv \<noteq> 0
                       then percent_of total_success total_deliv else Inr 0) of
                   Inl e \<Rightarrow> Inl e
                 | Inr sp \<Rightarrow>
                (case (if total_deliv \<noteq> 0
                       then percent_of total_fail total_deliv else Inr 0) of
                   Inl e \<Rightarrow> Inl e
                 | Inr fp \<Rightarrow> Inr (Some \<lparr>success_pct = sp, fail_pct = fp\<rparr>))))))))
      else Inr None)"

section \<open>The script, top to bottom\<close>

record dashboard_out =
  filtered :: table
  op_summary :: summary
  trend :: "trend_row list option"
  cost :: cost_view
  routes :: "route_view option"
  delivery :: "delivery_view option"

text \<open>
  One run of the script on an uploaded frame and one choice of the two sidebar widgets.
  The first exception ends the run. The widgets and the rendering (metrics, charts, the
  data table, the CSV download) are outside the model; the chart of lines 100 to 104
  shows the per-route cost sums that \<^verbatim>\<open>route_perf\<close> holds, and the rankings of lines 119
  to 162 are that frame sorted again.
\<close>

definition dashboard ::
  "(cell \<Rightarrow> int option) \<Rightarrow> (cell \<Rightarrow> rat option) \<Rightarrow> table \<Rightarrow> date_input \<Rightarrow> cell list
     \<Rightarrow> error + dashboard_out" where
  "dashboard date_of num_of df_raw date_range route_filter =
     (case normalize_df date_of num_of df_raw of
        Inl e \<Rightarrow> Inl e
      | Inr df0 \<Rightarrow>
     (case apply_filters date_range route_filter df0 of
        Inl e \<Rightarrow> Inl e
      | Inr df \<Rightarrow>
     (case operational_summary df of
        Inl e \<Rightarrow> Inl e
      | Inr s \<Rightarrow>
     (case trend_df df of
        Inl e \<Rightarrow> Inl e
      | Inr t \<Rightarrow>
     (case cost_analysis df of
        Inl e \<Rightarrow> Inl e
      | Inr c \<Rightarrow>
     (case route_section df of
        Inl e \<Rightarrow> Inl e
      | Inr r \<Rightarrow>
     (case delivery_performance df of
        Inl e \<Rightarrow> Inl e
      | Inr d \<Rightarrow>
          Inr \<lparr>filtered = df, op_summary = s, trend = t, cost = c, routes = r,
               delivery = d\<rparr>)))))))"

section \<open>The filter as the specification words it\<close>

text \<open>
  The value of a row under a label (the first column of that label), and whether a label
  names at most one column. \<^verbatim>\<open>pd.read_excel\<close> never returns two equal headers, but
  line 33 can rename a second column to a canonical name that the sheet already uses.
\<close>

definition row_value :: "table \<Rightarrow> string \<Rightarrow> cell list \<Rightarrow> cell" where
  "row_value df c r = (case positions c (columns df) of [] \<Rightarrow> Null | i # _ \<Rightarrow> cell_at r i)"

definition at_most_once :: "string \<Rightarrow> table \<Rightarrow> bool" where
  "at_most_once c df = (length (positions c (columns df)) \<le> 1)"

text \<open>The date range that line 51 accepts, and when each of the two filters applies.\<close>

fun chosen_range :: "date_input \<Rightarrow> (int \<times> int) option" where
  "chosen_range (DateTuple [s, e]) = Some (s, e)"
| "chosen_range _ = None"

definition date_filter_active :: "date_input \<Rightarrow> table \<Rightarrow> bool" where
  "date_filter_active date_range df =
     (''assign_date'' \<in> set (columns df) \<and> chosen_range date_range \<noteq> None)"

definition route_filter_active :: "cell list \<Rightarrow> table \<Rightarrow> bool" where
  "route_filter_active route_filter df =
     (''route_name'' \<in> set (columns df) \<and> route_filter \<noteq> [])"

text \<open>
  The calendar date of a timestamp, and a cell that carries no time of day (a missing
  value, or a timestamp at midnight).
\<close>

definition date_of_ts :: "int \<Rightarrow> int" where
  "date_of_ts t = t div day_ns"

definition no_time_of_day :: "cell \<Rightarrow> bool" where
  "no_time_of_day c = (case c of Ts t \<Rightarrow> t mod day_ns = 0 | _ \<Rightarrow> True)"

text \<open>
  The rule of the specification: a row is kept iff (no date filter, or its date is not
  null and within the inclusive range of picked dates) and (no route filter, or its
  route is selected).
\<close>

definition spec_keeps :: "table \<Rightarrow> date_input \<Rightarrow> cell list \<Rightarrow> cell list \<Rightarrow> bool" where
  "spec_keeps df date_range route_filter r =
     ((if date_filter_active date_range df
       then (case (row_value df ''assign_date'' r, chosen_range date_range) of
               (Ts t, Some (s, e)) \<Rightarrow> s \<le> date_of_ts t \<and> date_of_ts t \<le> e
             | _ \<Rightarrow> False)
       else True)
      \<and> (if route_filter_active route_filter df
         then row_value df ''route_name'' r \<in> set route_filter
         else True))"

text \<open>
  The same rule with the range read on timestamps, from the midnight that begins the
  first picked date to the midnight that begins the last.
\<close>

definition stamp_keeps :: "table \<Rightarrow> date_input \<Rightarrow> cell list \<Rightarrow> cell list \<Rightarrow> bool" where
  "stamp_keeps df date_range route_filter r =
     ((if date_filter_active date_range df
       then (case (row_value df ''assign_date'' r, chosen_range date_range) of
               (Ts t, Some (s, e)) \<Rightarrow> midnight s \<le> t \<and> t \<le> midnight e
             | _ \<Rightarrow> False)
       else True)
      \<and> (if route_filter_active route_filter df
         then row_value df ''route_name'' r \<in> set route_filter
         else True))"

text \<open>
  A small canonical frame: three rows, at the midnights of day 1 and day 2 and without
  a date.
\<close>

definition ex_dates :: table where
  "ex_dates = \<lparr>columns = [''job_id'', ''assign_date'', ''route_name''],
     rows = [[Num 1, Ts 86400000000000, Str ''A''], [Num 2, Ts 172800000000000, Str ''B''],
             [Num 3, Null, Str ''A'']]\<rparr>"


section \<open>Column totals as the specification words them\<close>

text \<open>
  The sum of a column over all rows of the frame, a missing value counting 0; and a
  label that names exactly one column whose cells are all numbers or missing.
\<close>

definition column_total :: "table \<Rightarrow> string \<Rightarrow> rat" where
  "column_total df c = sum_list (map (\<lambda>r. num_val (row_value df c r)) (rows df))"

definition numeric_label :: "string \<Rightarrow> table \<Rightarrow> bool" where
  "numeric_label c df =
     (c \<in> set (columns df) \<and> at_most_once c df
      \<and> list_all (\<lambda>r. numeric (row_value df c r)) (rows df))"

text \<open>A frame with the two delivery counts: 1 and 3 on the first row, 0 and 0 on the second.\<close>

definition ex_delivery :: table where
  "ex_delivery = \<lparr>columns = [''job_id'', ''success_count'', ''fail_count''],
     rows = [[Num 1, Num 1, Num 3], [Num 2, Num 0, Num 0]]\<rparr>"

text \<open>
  An upload under the source headers: three delivery rows, two of them of job 1; one
  missing additional cost, one base cost that is not a number, one missing date.
\<close>

definition ex_upload :: table where
  "ex_upload = \<lparr>columns = [hdr_assign_date, ''job_id'', hdr_num_deliveries, hdr_num_items,
                            hdr_total_cost, hdr_additional_cost, hdr_route_name,
                            hdr_success_count, hdr_fail_count],
     rows = [[Ts 86400000000000, Num 1, Num 2, Num 5, Num 100, Num 0, Str ''A'', Num 2, Num 0],
             [Ts 172800000000000, Num 1, Num 1, Num 3, Num 300, Null, Str ''A'', Num 1, Num 0],
             [Null, Num 2, Num 1, Num 1, Str ''x'', Num 50, Str ''B'', Num 0, Num 1]]\<rparr>"

text \<open>The frame that lines 33 to 44 make of that upload, and its first two rows.\<close>

definition ex_canonical :: table where
  "ex_canonical = \<lparr>columns = [''assign_date'', ''job_id'', ''num_deliveries'', ''num_items'',
                               ''total_cost'', ''additional_cost'', ''route_name'',
                               ''success_count'', ''fail_count'', ''cost_sum''],
     rows = [[Ts 86400000000000, Num 1, Num 2, Num 5, Num 100, Num 0, Str ''A'', Num 2, Num 0, Num 100],
             [Ts 172800000000000, Num 1, Num 1, Num 3, Num 300, Num 0, Str ''A'', Num 1, Num 0, Num 300],
             [Null, Num 2, Num 1, Num 1, Num 0, Num 50, Str ''B'', Num 0, Num 1, Num 50]]\<rparr>"

definition ex_filtered :: table where
  "ex_filtered = ex_canonical\<lparr>rows := take 2 (rows ex_canonical)\<rparr>"

section \<open>Jobs and routes\<close>

text \<open>
  No job id stands on rows of two different routes (rows without a job id or without a
  route aside); and every row has a route.
\<close>

definition one_route_per_job :: "table \<Rightarrow> bool" where
  "one_route_per_job df =
     (\<forall>r1\<in>set (rows df). \<forall>r2\<in>set (rows df).
        row_value df ''job_id'' r1 = row_value df ''job_id'' r2
        \<and> row_value df ''job_id'' r1 \<noteq> Null
        \<and> row_value df ''route_name'' r1 \<noteq> Null
        \<and> row_value df ''route_name'' r2 \<noteq> Null
        \<longrightarrow> row_value df ''route_name'' r1 = row_value df ''route_name'' r2)"

definition every_row_routed :: "table \<Rightarrow> bool" where
  "every_row_routed df = (\<forall>r\<in>set (rows df). row_value df ''route_name'' r \<noteq> Null)"

text \<open>An upload on which job 1 is delivered on route A and on route B.\<close>

definition ex_shared_upload :: table where
  "ex_shared_upload = \<lparr>columns = [''job_id'', hdr_num_deliveries, hdr_num_items,
                                   hdr_total_cost, hdr_additional_cost, hdr_route_name],
     rows = [[Num 1, Num 1, Num 1, Num 100, Num 0, Str ''A''],
             [Num 1, Num 1, Num 1, Num 50, Num 0, Str ''B'']]\<rparr>"

text \<open>
  An upload with the two counts and the two cost columns and no \<^verbatim>\<open>job_id\<close> column.
\<close>

definition ex_no_job_id :: table where
  "ex_no_job_id = \<lparr>columns = [hdr_num_deliveries, hdr_num_items, hdr_total_cost,
                               hdr_additional_cost],
     rows = [[Num 2, Num 5, Num 100, Num 20], [Num 1, Null, Num 300, Null]]\<rparr>"

text \<open>The frame that lines 33 to 44 make of the upload with job 1 on two routes.\<close>

definition ex_shared_canonical :: table where
  "ex_shared_canonical =
     \<lparr>columns = [''job_id'', ''num_deliveries'', ''num_items'', ''total_cost'',
                 ''additional_cost'', ''route_name'', ''cost_sum''],
      rows = [[Num 1, Num 1, Num 1, Num 100, Num 0, Str ''A'', Num 100],
              [Num 1, Num 1, Num 1, Num 50, Num 0, Str ''B'', Num 50]]\<rparr>"

text \<open>An upload with the job id, the delivery count and both costs, and no item count.\<close>

definition ex_no_num_items :: table where
  "ex_no_num_items = \<lparr>columns = [''job_id'', hdr_num_deliveries, hdr_total_cost,
                                  hdr_additional_cost],
     rows = [[Num 1, Num 2, Num 100, Num 20], [Num 2, Num 1, Num 300, Null]]\<rparr>"

section \<open>Evaluation on concrete frames\<close>

lemmas header_defs = COLUMN_MAP_def hdr_assign_date_def hdr_num_deliveries_def
  hdr_num_items_def hdr_total_cost_def hdr_additional_cost_def hdr_route_name_def
  hdr_success_count_def hdr_fail_count_def rename_header_def rename_def

lemmas frame_defs = getitem_def series_def setitem_def boolean_index_def positions_def
  cell_at_def pad_def

lemmas script_defs = normalize_df_def convert_date_def numeric_column_def to_datetime_def
  to_numeric_def fillna_def date_filter_def route_filter_step_def apply_filters_def
  in_range_def nunique_def sum_series_def mean_series_def group_keys_def group_of_def
  operational_summary_def trend_group_def trend_df_def cost_analysis_def route_group_def
  route_perf_def cheapest_route_def route_section_def delivery_performance_def
  dashboard_def midnight_def day_ns_def true_divide_def percent_of_def

section \<open>Missing cost columns\<close>

text \<open>
  C1. The claim: after normalisation \<open>cost_sum = total_cost + additional_cost\<close> on every
  row, for every input table, also when a cost column is absent from the upload (the
  absent field read as 0). The comment of line 39 announces that too. On the upload
  below, which has the additional-cost column and no base-cost column, line 40 raises
  AttributeError, whatever the two parsers are, and no row gets a \<open>cost_sum\<close>.
\<close>

theorem normalize_without_total_cost_raises:
  "normalize_df date_of num_of
     \<lparr>columns = [''job_id'', hdr_num_deliveries, hdr_num_items, hdr_additional_cost],
      rows = [[Num 1, Num 2, Num 3, Num 50]]\<rparr>
   = Inl AttributeError"
  by (simp add: header_defs frame_defs script_defs)

text \<open>
  C7. The claim: for every raw table, normalisation produces a canonical table with
  the same number of rows. On the two-row upload below, which has neither cost column,
  normalisation produces no table at all: line 40 raises AttributeError.
\<close>

theorem normalize_without_cost_columns_no_table:
  "normalize_df date_of num_of
     \<lparr>columns = [''job_id'', hdr_num_deliveries, hdr_num_items, hdr_route_name],
      rows = [[Num 1, Num 2, Num 3, Str ''A''], [Num 2, Num 1, Num 1, Str ''B'']]\<rparr>
   = Inl AttributeError"
  by (simp add: header_defs frame_defs script_defs)

section \<open>The empty frame\<close>

text \<open>
  C4. The claim: on a record set of zero rows every aggregate reports zero or empty
  without raising, the average cost per job included. On an upload of zero rows that
  has the route column, the run ends in IndexError: \<^verbatim>\<open>route_perf\<close> has no row and line
  136 reads \<^verbatim>\<open>iloc[0]\<close>. Without the route column the run completes, with the three
  counts 0, and the average cost is the mean of no value, NaN, not 0.
\<close>

theorem empty_upload_raises_and_mean_is_nan:
  "dashboard (\<lambda>c. None) (\<lambda>c. None)
     \<lparr>columns = [''job_id'', hdr_num_deliveries, hdr_num_items, hdr_total_cost,
                 hdr_additional_cost, hdr_route_name],
      rows = []\<rparr> (DateTuple []) []
   = Inl IndexError
   \<and> dashboard (\<lambda>c. None) (\<lambda>c. None)
     \<lparr>columns = [''job_id'', hdr_num_deliveries, hdr_num_items, hdr_total_cost,
                 hdr_additional_cost],
      rows = []\<rparr> (DateTuple []) []
   = Inr \<lparr>filtered = \<lparr>columns = [''job_id'', ''num_deliveries'', ''num_items'',
                                     ''total_cost'', ''additional_cost'', ''cost_sum''],
                          rows = []\<rparr>,
          op_summary = \<lparr>total_jobs = 0, total_deliveries = 0, total_items = 0\<rparr>,
          trend = None,
          cost = \<lparr>total_cost_sum = 0, avg_cost_job = None, base_cost = 0,
                  additional_cost = 0\<rparr>,
          routes = None, delivery = None\<rparr>"
  by (simp add: header_defs frame_defs script_defs)

section \<open>Filtering\<close>

lemma positions_from_empty: "positions_from n c cs = [] \<longleftrightarrow> c \<notin> set cs"
  by (induction cs arbitrary: n) auto

lemma positions_empty: "positions c cs = [] \<longleftrightarrow> c \<notin> set cs"
  by (simp add: positions_def positions_from_empty)

lemma select_map: "map fst (filter snd (zip xs (map p xs))) = filter p xs"
  by (induction xs) auto

lemma boolean_index_column:
  "boolean_index df (map p (map f (rows df))) = df\<lparr>rows := filter (\<lambda>r. p (f r)) (rows df)\<rparr>"
  using select_map [of "rows df" "\<lambda>r. p (f r)"]
  by (simp add: boolean_index_def comp_def)

lemma getitem_present:
  assumes "c \<in> set (columns df)" "at_most_once c df"
  shows "getitem df c = Series (map (row_value df c) (rows df))"
proof -
  from assms obtain i where i: "positions c (columns df) = [i]"
    by (cases "positions c (columns df)") (auto simp: positions_empty at_most_once_def)
  then show ?thesis
    by (simp add: getitem_def row_value_def)
qed

lemma chosen_range_cases:
  obtains (pair) s e where "date_range = DateTuple [s, e]"
  | (other) "chosen_range date_range = None"
  by (cases date_range rule: chosen_range.cases) auto

lemma date_filter_rows:
  assumes "at_most_once ''assign_date'' df"
  shows "date_filter date_range df =
           Inr (df\<lparr>rows := filter (stamp_keeps df date_range []) (rows df)\<rparr>)"
proof (cases "''assign_date'' \<in> set (columns df)")
  case False
  then show ?thesis
    by (simp add: date_filter_def stamp_keeps_def date_filter_active_def route_filter_active_def)
next
  case True
  note g = getitem_present [OF True assms]
  show ?thesis
  proof (cases date_range rule: chosen_range_cases)
    case (pair s e)
    have "\<And>r. in_range (midnight s) (midnight e) (row_value df ''assign_date'' r)
             = stamp_keeps df date_range [] r"
      using True pair
      by (auto simp: in_range_def stamp_keeps_def date_filter_active_def route_filter_active_def
          split: cell.splits)
    then show ?thesis
      using True pair g
        boolean_index_column [of df "in_range (midnight s) (midnight e)"
          "row_value df ''assign_date''"]
      by (simp add: date_filter_def Let_def)
  next
    case other
    then have "date_filter date_range df = Inr df"
      using True g
      by (cases date_range rule: chosen_range.cases) (auto simp: date_filter_def)
    then show ?thesis
      using other
      by (simp add: stamp_keeps_def date_filter_active_def route_filter_active_def)
  qed
qed


lemma route_filter_step_rows:
  assumes "at_most_once ''route_name'' df"
  shows "route_filter_step route_filter df =
           Inr (df\<lparr>rows := filter (\<lambda>r. route_filter_active route_filter df
                      \<longrightarrow> row_value df ''route_name'' r \<in> set route_filter) (rows df)\<rparr>)"
proof (cases "route_filter_active route_filter df")
  case False
  then show ?thesis
    using assms getitem_present [of "''route_name''" df]
    by (auto simp: route_filter_step_def route_filter_active_def)
next
  case True
  then have c: "''route_name'' \<in> set (columns df)" and ne: "route_filter \<noteq> []"
    by (simp_all add: route_filter_active_def)
  show ?thesis
    using True ne c getitem_present [OF c assms]
      boolean_index_column [of df "\<lambda>c. c \<in> set route_filter" "row_value df ''route_name''"]
    by (simp add: route_filter_step_def)
qed

lemma row_value_rows_update [simp]: "row_value (df\<lparr>rows := rs\<rparr>) c = row_value df c"
  by (rule ext) (simp add: row_value_def)

lemma at_most_once_rows_update [simp]: "at_most_once c (df\<lparr>rows := rs\<rparr>) = at_most_once c df"
  by (simp add: at_most_once_def)

lemma filter_active_rows_update [simp]:
  "date_filter_active date_range (df\<lparr>rows := rs\<rparr>) = date_filter_active date_range df"
  "route_filter_active route_filter (df\<lparr>rows := rs\<rparr>) = route_filter_active route_filter df"
  by (simp_all add: date_filter_active_def route_filter_active_def)

lemma stamp_keeps_rows_update [simp]:
  "stamp_keeps (df\<lparr>rows := rs\<rparr>) date_range route_filter = stamp_keeps df date_range route_filter"
  by (rule ext) (simp add: stamp_keeps_def)

lemma stamp_keeps_split:
  "stamp_keeps df date_range route_filter r \<longleftrightarrow>
     stamp_keeps df date_range [] r \<and>
     (route_filter_active route_filter df \<longrightarrow> row_value df ''route_name'' r \<in> set route_filter)"
  by (simp add: stamp_keeps_def route_filter_active_def)

lemma apply_filters_rows:
  assumes "at_most_once ''assign_date'' df" and "at_most_once ''route_name'' df"
  shows "apply_filters date_range route_filter df =
           Inr (df\<lparr>rows := filter (stamp_keeps df date_range route_filter) (rows df)\<rparr>)"
proof -
  let ?d1 = "df\<lparr>rows := filter (stamp_keeps df date_range []) (rows df)\<rparr>"
  have 1: "date_filter date_range df = Inr ?d1"
    by (rule date_filter_rows [OF assms(1)])
  have 2: "route_filter_step route_filter ?d1 =
      Inr (?d1\<lparr>rows := filter (\<lambda>r. route_filter_active route_filter ?d1
                      \<longrightarrow> row_value ?d1 ''route_name'' r \<in> set route_filter) (rows ?d1)\<rparr>)"
    by (rule route_filter_step_rows) (simp add: assms(2))
  have 3: "filter (\<lambda>r. route_filter_active route_filter df
                      \<longrightarrow> row_value df ''route_name'' r \<in> set route_filter)
             (filter (stamp_keeps df date_range []) (rows df))
           = filter (stamp_keeps df date_range route_filter) (rows df)"
    by (subst (2) stamp_keeps_split [abs_def]) (auto intro: filter_cong)
  show ?thesis
    unfolding apply_filters_def 1 using 2 3 by simp
qed









text \<open>
  C8. The filter block is idempotent: it returns a frame, and run again on that frame
  with the same selection it returns the same frame.
\<close>

theorem filter_idempotent:
  assumes "at_most_once ''assign_date'' df" and "at_most_once ''route_name'' df"
  shows "\<exists>df'. apply_filters date_range route_filter df = Inr df'
               \<and> apply_filters date_range route_filter df' = Inr df'"
proof -
  let ?d = "df\<lparr>rows := filter (stamp_keeps df date_range route_filter) (rows df)\<rparr>"
  have "apply_filters date_range route_filter ?d =
          Inr (?d\<lparr>rows := filter (stamp_keeps ?d date_range route_filter) (rows ?d)\<rparr>)"
    by (rule apply_filters_rows) (simp_all add: assms)
  then have "apply_filters date_range route_filter ?d = Inr ?d"
    by simp
  with apply_filters_rows [OF assms] show ?thesis
    by blast
qed

lemma date_filter_columns:
  assumes "date_filter date_range df = Inr d"
  shows "columns d = columns df"
proof (cases "''assign_date'' \<in> set (columns df)")
  case False
  with assms show ?thesis by (simp add: date_filter_def)
next
  case True
  show ?thesis
  proof (cases "getitem df ''assign_date''")
    case (Series xs)
    show ?thesis
    proof (cases date_range rule: chosen_range_cases)
      case (pair s e)
      with assms True Series show ?thesis
        by (auto simp: date_filter_def boolean_index_def Let_def)
    next
      case other
      with assms True Series show ?thesis
        by (cases date_range rule: chosen_range.cases) (auto simp: date_filter_def)
    qed
  qed (use assms True in \<open>simp_all add: date_filter_def\<close>)
qed

lemma route_filter_step_empty:
  assumes "at_most_once ''route_name'' df"
  shows "route_filter_step [] df = Inr df"
  using route_filter_step_rows [OF assms, of "[]"]
  by (simp add: route_filter_active_def)

text \<open>
  C10. With the route column present and an empty selection, lines 55 to 58 leave the
  frame as it is, so the filter block keeps what the date filter alone keeps.
\<close>

theorem empty_route_selection_filters_nothing:
  assumes "''route_name'' \<in> set (columns df)" and "at_most_once ''route_name'' df"
  shows "route_filter_step [] df = Inr df
         \<and> apply_filters date_range [] df = date_filter date_range df"
proof (cases "date_filter date_range df")
  case (Inl e)
  then show ?thesis
    by (simp add: apply_filters_def route_filter_step_empty [OF assms(2)])
next
  case (Inr d)
  then have "columns d = columns df"
    by (rule date_filter_columns)
  then have "at_most_once ''route_name'' d"
    using assms(2) by (simp add: at_most_once_def)
  then have "route_filter_step [] d = Inr d"
    by (rule route_filter_step_empty)
  with Inr show ?thesis
    by (simp add: apply_filters_def route_filter_step_empty [OF assms(2)])
qed

lemmas spec_defs = at_most_once_def row_value_def stamp_keeps_def spec_keeps_def
  date_filter_active_def route_filter_active_def date_of_ts_def no_time_of_day_def
  midnight_def day_ns_def



theorem filter_idempotent_witness:
  "at_most_once ''assign_date'' ex_dates \<and> at_most_once ''route_name'' ex_dates
   \<and> (\<exists>df'. apply_filters (DateTuple [1, 2]) [Str ''A''] ex_dates = Inr df'
           \<and> apply_filters (DateTuple [1, 2]) [Str ''A''] df' = Inr df')"
  using filter_idempotent [of ex_dates "DateTuple [1, 2]" "[Str ''A'']"]
  by (simp add: ex_dates_def spec_defs frame_defs)

theorem empty_route_selection_filters_nothing_witness:
  "''route_name'' \<in> set (columns ex_dates) \<and> at_most_once ''route_name'' ex_dates
   \<and> apply_filters (DateTuple [2, 5]) [] ex_dates
       = Inr (ex_dates\<lparr>rows := [[Num 2, Ts 172800000000000, Str ''B'']]\<rparr>)"
  using empty_route_selection_filters_nothing [of ex_dates "DateTuple [2, 5]"]
  by (simp add: ex_dates_def spec_defs frame_defs date_filter_def in_range_def)

section \<open>Reading and assigning columns\<close>

lemma positions_from_bounds:
  "i \<in> set (positions_from n c cs) \<Longrightarrow> n \<le> i \<and> i < n + length cs \<and> cs ! (i - n) = c"
proof (induction cs arbitrary: n)
  case Nil
  then show ?case by simp
next
  case (Cons h hs)
  show ?case
  proof (cases "i = n \<and> h = c")
    case True
    then show ?thesis by simp
  next
    case False
    with Cons.prems have "i \<in> set (positions_from (Suc n) c hs)"
      by (auto split: if_splits)
    from Cons.IH [OF this]
    have "Suc n \<le> i" and "i < Suc n + length hs" and c: "hs ! (i - Suc n) = c"
      by simp_all
    moreover from \<open>Suc n \<le> i\<close> have "i - n = Suc (i - Suc n)"
      by arith
    ultimately show ?thesis
      by simp
  qed
qed

lemma positions_bounds:
  "i \<in> set (positions c cs) \<Longrightarrow> i < length cs \<and> cs ! i = c"
  using positions_from_bounds [of i 0 c cs] by (simp add: positions_def)

lemma positions_from_append:
  "positions_from n c (cs @ ds) = positions_from n c cs @ positions_from (n + length cs) c ds"
  by (induction cs arbitrary: n) auto

lemma positions_snoc:
  "positions c (cs @ [d]) = positions c cs @ (if d = c then [length cs] else [])"
  by (simp add: positions_def positions_from_append)

lemma positions_from_distinct:
  "distinct cs \<Longrightarrow> length (positions_from n c cs) \<le> 1"
proof (induction cs arbitrary: n)
  case Nil
  then show ?case by simp
next
  case (Cons h hs)
  show ?case
  proof (cases "h = c")
    case True
    with Cons.prems have "c \<notin> set hs" by simp
    then have "positions_from (Suc n) c hs = []"
      by (simp add: positions_from_empty)
    with True show ?thesis by simp
  next
    case False
    with Cons show ?thesis by simp
  qed
qed

lemma distinct_at_most_once: "distinct (columns df) \<Longrightarrow> at_most_once c df"
  using positions_from_distinct [of "columns df" 0 c]
  by (simp add: at_most_once_def positions_def)

lemma length_pad [simp]: "length (pad n r) = n"
  by (simp add: pad_def)

lemma cell_at_pad:
  assumes "i < n"
  shows "cell_at (pad n r) i = cell_at r i"
proof -
  have "cell_at (pad n r) i = (take n r @ replicate (n - length r) Null) ! i"
    using assms by (simp add: cell_at_def) (simp add: pad_def)
  also have "\<dots> = cell_at r i"
  proof (cases "i < length r")
    case True
    with assms have "i < length (take n r)" by simp
    then have "(take n r @ replicate (n - length r) Null) ! i = take n r ! i"
      by (simp only: nth_append if_True)
    with True assms show ?thesis by (simp add: cell_at_def)
  next
    case False
    with assms have "\<not> i < length (take n r)" and "i - length (take n r) < n - length r"
      by simp_all
    then have "(take n r @ replicate (n - length r) Null) ! i = Null"
      by (simp only: nth_append if_False nth_replicate)
    with False show ?thesis by (simp add: cell_at_def)
  qed
  finally show ?thesis .
qed

lemma cell_at_fold_update:
  "cell_at (fold (\<lambda>i r'. r'[i := v]) ps r) j
     = (if j \<in> set ps \<and> j < length r then v else cell_at r j)"
proof (induction ps arbitrary: r)
  case Nil
  then show ?case by simp
next
  case (Cons p ps)
  show ?case
    by (simp add: Cons.IH) (auto simp: cell_at_def nth_list_update)
qed

lemma cell_at_snoc_last: "cell_at (pad n r @ [v]) n = v"
  by (simp add: cell_at_def nth_append)

lemma cell_at_snoc_old: "i < n \<Longrightarrow> cell_at (pad n r @ [v]) i = cell_at r i"
  using cell_at_pad [of i n r] by (simp add: cell_at_def nth_append)

lemma columns_setitem:
  "columns (setitem df c vs) = (if c \<in> set (columns df) then columns df else columns df @ [c])"
  by (simp add: setitem_def Let_def positions_empty)

lemma length_rows_setitem:
  "length vs = length (rows df) \<Longrightarrow> length (rows (setitem df c vs)) = length (rows df)"
  by (simp add: setitem_def Let_def)

lemma map_zip_snd: "length xs = length ys \<Longrightarrow> map (\<lambda>p. g (snd p)) (zip xs ys) = map g ys"
  by (induction xs ys rule: list_induct2) auto

lemma map_zip_fst: "length xs = length ys \<Longrightarrow> map (\<lambda>p. f (fst p)) (zip xs ys) = map f xs"
  by (induction xs ys rule: list_induct2) auto

lemma getitem_setitem_same:
  assumes "at_most_once c df" and "length vs = length (rows df)"
  shows "getitem (setitem df c vs) c = Series vs"
proof (cases "c \<in> set (columns df)")
  case False
  then have p: "positions c (columns df) = []"
    by (simp add: positions_empty)
  then have "positions c (columns (setitem df c vs)) = [length (columns df)]"
    using False by (simp add: columns_setitem positions_snoc)
  moreover have "map (\<lambda>r. cell_at r (length (columns df))) (rows (setitem df c vs)) = vs"
    using p assms(2)
    using map_zip_snd [of "rows df" vs "\<lambda>v. v"]
    by (simp add: setitem_def comp_def case_prod_unfold cell_at_snoc_last)
  ultimately show ?thesis
    by (simp add: getitem_def)
next
  case True
  then obtain i where p: "positions c (columns df) = [i]"
    using assms(1)
    by (cases "positions c (columns df)") (auto simp: positions_empty at_most_once_def)
  then have i: "i < length (columns df)"
    using positions_bounds [of i c "columns df"] by simp
  have "positions c (columns (setitem df c vs)) = [i]"
    using True p by (simp add: columns_setitem)
  moreover have "map (\<lambda>r. cell_at r i) (rows (setitem df c vs)) = vs"
    using p i assms(2)
    using map_zip_snd [of "rows df" vs "\<lambda>v. v"]
    by (simp add: setitem_def comp_def case_prod_unfold cell_at_def)
  ultimately show ?thesis
    by (simp add: getitem_def)
qed

lemma getitem_setitem_other:
  assumes "d \<noteq> c" and "length vs = length (rows df)"
  shows "getitem (setitem df c vs) d = getitem df d"
proof -
  have pos: "positions d (columns (setitem df c vs)) = positions d (columns df)"
    using assms(1) by (simp add: columns_setitem positions_snoc)
  have cells: "map (\<lambda>r. cell_at r i) (rows (setitem df c vs)) = map (\<lambda>r. cell_at r i) (rows df)"
    if "i \<in> set (positions d (columns df))" for i
  proof -
    from that have i: "i < length (columns df)" and "columns df ! i = d"
      using positions_bounds by blast+
    with assms(1) have "i \<notin> set (positions c (columns df))"
      using positions_bounds by blast
    with i assms(2) show ?thesis
      using map_zip_fst [of "rows df" vs "\<lambda>r. cell_at r i"]
      by (simp add: setitem_def Let_def comp_def case_prod_unfold cell_at_snoc_old
          cell_at_fold_update cell_at_pad)
  qed
  show ?thesis
  proof (cases "positions d (columns df)")
    case Nil
    with pos show ?thesis by (simp add: getitem_def)
  next
    case (Cons i ps)
    with pos cells [of i] show ?thesis
      by (cases ps) (simp_all add: getitem_def)
  qed
qed

section \<open>Delivery percentages\<close>

lemma series_numeric_label:
  assumes "numeric_label c df"
  shows "series df c = Inr (map (row_value df c) (rows df))"
    and "sum_series (map (row_value df c) (rows df)) = Inr (column_total df c)"
  using assms getitem_present [of c df]
  by (simp_all add: numeric_label_def series_def sum_series_def column_total_def
      list_all_iff comp_def)

lemma percent_of_nonzero: "whole \<noteq> 0 \<Longrightarrow> percent_of part whole = Inr (part / whole * 100)"
  by (simp add: percent_of_def true_divide_def)

lemma percent_of_zero: "percent_of part 0 = Inl ZeroDivisionError"
  by (simp add: percent_of_def true_divide_def)

lemma delivery_performance_numeric:
  assumes "numeric_label ''success_count'' df" and "numeric_label ''fail_count'' df"
  shows "delivery_performance df =
     (let s = column_total df ''success_count''; f = column_total df ''fail_count'' in
      Inr (Some \<lparr>success_pct = (if s + f = 0 then 0 else s / (s + f) * 100),
                 fail_pct = (if s + f = 0 then 0 else f / (s + f) * 100)\<rparr>))"
proof -
  have "''success_count'' \<in> set (columns df)" and "''fail_count'' \<in> set (columns df)"
    using assms by (simp_all add: numeric_label_def)
  then show ?thesis
    by (simp add: delivery_performance_def Let_def percent_of_nonzero
        series_numeric_label [OF assms(1)] series_numeric_label [OF assms(2)])
qed

text \<open>
  C6. With both count columns present and numeric, lines 170 to 174 return
  \<open>s / (s + f) * 100\<close> and \<open>f / (s + f) * 100\<close> for the two column sums \<open>s\<close> and \<open>f\<close>,
  and 0 for both when \<open>s + f = 0\<close>. The division itself yields no number on a zero
  denominator (ZeroDivisionError, or NaN from numpy); the guard of lines 173 and 174
  keeps the block from dividing there, so the result is always a pair of numbers.
\<close>

theorem delivery_performance_percentages:
  assumes "numeric_label ''success_count'' df" and "numeric_label ''fail_count'' df"
  shows "delivery_performance df =
     (let s = column_total df ''success_count''; f = column_total df ''fail_count'' in
      Inr (Some \<lparr>success_pct = (if s + f = 0 then 0 else s / (s + f) * 100),
                 fail_pct = (if s + f = 0 then 0 else f / (s + f) * 100)\<rparr>))
     \<and> percent_of (column_total df ''success_count'') 0 = Inl ZeroDivisionError
     \<and> percent_of (column_total df ''fail_count'') 0 = Inl ZeroDivisionError"
  using delivery_performance_numeric [OF assms] by (simp add: percent_of_zero)

theorem delivery_performance_percentages_witness:
  "numeric_label ''success_count'' ex_delivery \<and> numeric_label ''fail_count'' ex_delivery
   \<and> delivery_performance ex_delivery = Inr (Some \<lparr>success_pct = 25, fail_pct = 75\<rparr>)
   \<and> numeric_label ''success_count'' (ex_delivery\<lparr>rows := [[Num 2, Num 0, Null]]\<rparr>)
   \<and> numeric_label ''fail_count'' (ex_delivery\<lparr>rows := [[Num 2, Num 0, Null]]\<rparr>)
   \<and> delivery_performance (ex_delivery\<lparr>rows := [[Num 2, Num 0, Null]]\<rparr>)
       = Inr (Some \<lparr>success_pct = 0, fail_pct = 0\<rparr>)"
  using delivery_performance_percentages [of ex_delivery]
    delivery_performance_percentages [of "ex_delivery\<lparr>rows := [[Num 2, Num 0, Null]]\<rparr>"]
  by (simp add: ex_delivery_def numeric_label_def column_total_def spec_defs frame_defs)

section \<open>What normalisation returns\<close>

text \<open>
  Under pairwise different headers after renaming, lines 33 to 44 raise exactly when a
  cost column is absent, and otherwise return a frame of as many rows as the upload,
  with numeric cost columns and their sum.
\<close>

lemma distinct_setitem:
  "distinct (columns df) \<Longrightarrow> distinct (columns (setitem df c vs))"
  by (simp add: columns_setitem)

lemma set_columns_setitem:
  "set (columns (setitem df c vs)) = insert c (set (columns df))"
  by (auto simp: columns_setitem)

lemma getitem_Series_present:
  "getitem df c = Series xs \<Longrightarrow> c \<in> set (columns df)"
  using positions_empty [of c "columns df"]
  by (auto simp: getitem_def split: list.splits)

lemma getitem_absent:
  "c \<notin> set (columns df) \<Longrightarrow> getitem df c = Missing"
  by (simp add: getitem_def positions_empty [symmetric])

lemma convert_date_result:
  assumes "distinct (columns d0)"
  shows "\<exists>d1. convert_date date_of d0 = Inr d1 \<and> columns d1 = columns d0
            \<and> length (rows d1) = length (rows d0)
            \<and> (\<forall>c. c \<noteq> ''assign_date'' \<longrightarrow> getitem d1 c = getitem d0 c)"
proof (cases "''assign_date'' \<in> set (columns d0)")
  case False
  then show ?thesis by (simp add: convert_date_def)
next
  case True
  let ?xs = "map (row_value d0 ''assign_date'') (rows d0)"
  let ?d1 = "setitem d0 ''assign_date'' (map (to_datetime date_of) ?xs)"
  have g: "getitem d0 ''assign_date'' = Series ?xs"
    by (rule getitem_present [OF True distinct_at_most_once [OF assms]])
  have "convert_date date_of d0 = Inr ?d1"
    using True g by (simp add: convert_date_def)
  moreover have "columns ?d1 = columns d0"
    using True by (simp add: columns_setitem)
  moreover have "length (rows ?d1) = length (rows d0)"
    by (simp add: length_rows_setitem)
  moreover have "\<forall>c. c \<noteq> ''assign_date'' \<longrightarrow> getitem ?d1 c = getitem d0 c"
    by (simp add: getitem_setitem_other)
  ultimately show ?thesis by blast
qed

lemma is_number_fillna: "is_number (fillna 0 (to_numeric num_of c))"
  by (cases c) (simp_all add: fillna_def to_numeric_def split: option.splits)

lemma numeric_column_present:
  assumes "c \<in> set (columns d)" and "at_most_once c d"
  shows "\<exists>xs. numeric_column num_of d c = Inr xs \<and> length xs = length (rows d)
            \<and> list_all is_number xs"
  using getitem_present [OF assms]
  by (simp add: numeric_column_def list_all_iff is_number_fillna)

lemma numeric_column_absent:
  "c \<notin> set (columns d) \<Longrightarrow> numeric_column num_of d c = Inl AttributeError"
  by (simp add: numeric_column_def getitem_absent)

lemma normalize_df_absent:
  assumes "distinct (columns (rename df_raw))"
    and "''total_cost'' \<notin> set (columns (rename df_raw))
         \<or> ''additional_cost'' \<notin> set (columns (rename df_raw))"
  shows "normalize_df date_of num_of df_raw = Inl AttributeError"
proof -
  from convert_date_result [OF assms(1)] obtain d1 where
    d1: "convert_date date_of (rename df_raw) = Inr d1"
    and c1: "columns d1 = columns (rename df_raw)"
    by blast
  show ?thesis
  proof (cases "''total_cost'' \<in> set (columns d1)")
    case False
    then show ?thesis
      by (simp add: normalize_df_def d1 numeric_column_absent)
  next
    case True
    have "at_most_once ''total_cost'' d1"
      using assms(1) c1 by (simp add: distinct_at_most_once)
    from numeric_column_present [OF True this] obtain tc where
      tc: "numeric_column num_of d1 ''total_cost'' = Inr tc"
      by blast
    have "''additional_cost'' \<notin> set (columns (setitem d1 ''total_cost'' tc))"
      using True assms(2) c1 by (simp add: set_columns_setitem insert_absorb)
    then show ?thesis
      by (simp add: normalize_df_def d1 tc numeric_column_absent)
  qed
qed

lemma normalize_df_present:
  assumes "distinct (columns (rename df_raw))"
    and "''total_cost'' \<in> set (columns (rename df_raw))"
    and "''additional_cost'' \<in> set (columns (rename df_raw))"
  shows "\<exists>df tc ac. normalize_df date_of num_of df_raw = Inr df
      \<and> distinct (columns df)
      \<and> set (columns df) = insert ''cost_sum'' (set (columns (rename df_raw)))
      \<and> length (rows df) = length (rows df_raw)
      \<and> length tc = length (rows df_raw) \<and> length ac = length (rows df_raw)
      \<and> list_all is_number tc \<and> list_all is_number ac
      \<and> getitem df ''total_cost'' = Series tc
      \<and> getitem df ''additional_cost'' = Series ac
      \<and> getitem df ''cost_sum'' = Series (map (\<lambda>(x, y). add_cells x y) (zip tc ac))
      \<and> (\<forall>c. c \<notin> {''assign_date'', ''total_cost'', ''additional_cost'', ''cost_sum''}
             \<longrightarrow> getitem df c = getitem (rename df_raw) c)"
proof -
  let ?d0 = "rename df_raw"
  have r0: "rows ?d0 = rows df_raw" by (simp add: rename_def)
  from convert_date_result [OF assms(1)] obtain d1 where
    d1: "convert_date date_of ?d0 = Inr d1"
    and c1: "columns d1 = columns ?d0"
    and l1: "length (rows d1) = length (rows df_raw)"
    and o1: "\<And>c. c \<noteq> ''assign_date'' \<Longrightarrow> getitem d1 c = getitem ?d0 c"
    using r0 by auto
  have dist1: "distinct (columns d1)" using assms(1) c1 by simp
  from numeric_column_present [OF _ distinct_at_most_once [OF dist1], of "''total_cost''"]
  obtain tc where
    tc: "numeric_column num_of d1 ''total_cost'' = Inr tc"
    and ltc: "length tc = length (rows d1)" and ntc: "list_all is_number tc"
    using assms(2) c1 by auto
  define d2 where "d2 = setitem d1 ''total_cost'' tc"
  have c2: "columns d2 = columns ?d0"
    using assms(2) c1 by (simp add: d2_def columns_setitem)
  have dist2: "distinct (columns d2)" using assms(1) c2 by simp
  have l2: "length (rows d2) = length (rows df_raw)"
    using ltc l1 by (simp add: d2_def length_rows_setitem)
  have g2: "getitem d2 ''total_cost'' = Series tc"
    unfolding d2_def
    by (rule getitem_setitem_same [OF distinct_at_most_once [OF dist1] ltc])
  have o2: "\<And>c. c \<noteq> ''total_cost'' \<Longrightarrow> getitem d2 c = getitem d1 c"
    unfolding d2_def using ltc by (simp add: getitem_setitem_other)
  from numeric_column_present [OF _ distinct_at_most_once [OF dist2], of "''additional_cost''"]
  obtain ac where
    ac: "numeric_column num_of d2 ''additional_cost'' = Inr ac"
    and lac: "length ac = length (rows d2)" and nac: "list_all is_number ac"
    using assms(3) c2 by auto
  define d3 where "d3 = setitem d2 ''additional_cost'' ac"
  have c3: "columns d3 = columns ?d0"
    using assms(3) c2 by (simp add: d3_def columns_setitem)
  have dist3: "distinct (columns d3)" using assms(1) c3 by simp
  have l3: "length (rows d3) = length (rows df_raw)"
    using lac l2 by (simp add: d3_def length_rows_setitem)
  have g3a: "getitem d3 ''additional_cost'' = Series ac"
    unfolding d3_def
    by (rule getitem_setitem_same [OF distinct_at_most_once [OF dist2] lac])
  have o3: "\<And>c. c \<noteq> ''additional_cost'' \<Longrightarrow> getitem d3 c = getitem d2 c"
    unfolding d3_def using lac by (simp add: getitem_setitem_other)
  have g3t: "getitem d3 ''total_cost'' = Series tc"
    using o3 [of "''total_cost''"] g2 by simp
  let ?cs = "map (\<lambda>(x, y). add_cells x y) (zip tc ac)"
  define df where "df = setitem d3 ''cost_sum'' ?cs"
  have lcs: "length ?cs = length (rows d3)"
    using ltc lac l1 l2 l3 by simp
  have n: "normalize_df date_of num_of df_raw = Inr df"
    using d1 tc ac g3t g3a
    by (simp add: normalize_df_def Let_def series_def d2_def [symmetric] d3_def [symmetric]
        df_def [symmetric])
  have "distinct (columns df)"
    unfolding df_def by (rule distinct_setitem [OF dist3])
  moreover have "set (columns df) = insert ''cost_sum'' (set (columns ?d0))"
    by (simp add: df_def set_columns_setitem c3)
  moreover have "length (rows df) = length (rows df_raw)"
    using lcs l3 by (simp add: df_def length_rows_setitem)
  moreover have "getitem df ''cost_sum'' = Series ?cs"
    unfolding df_def
    by (rule getitem_setitem_same [OF distinct_at_most_once [OF dist3] lcs])
  moreover have o4: "\<And>c. c \<noteq> ''cost_sum'' \<Longrightarrow> getitem df c = getitem d3 c"
    unfolding df_def using lcs by (simp add: getitem_setitem_other)
  moreover have "getitem df ''total_cost'' = Series tc"
    using o4 [of "''total_cost''"] g3t by simp
  moreover have "getitem df ''additional_cost'' = Series ac"
    using o4 [of "''additional_cost''"] g3a by simp
  moreover have "\<forall>c. c \<notin> {''assign_date'', ''total_cost'', ''additional_cost'', ''cost_sum''}
             \<longrightarrow> getitem df c = getitem ?d0 c"
    using o4 o3 o2 o1 by simp
  moreover have "length tc = length (rows df_raw)" "length ac = length (rows df_raw)"
    using ltc lac l1 l2 by simp_all
  ultimately show ?thesis
    using n ntc nac by blast
qed

section \<open>Cost analysis\<close>

lemma getitem_Series_row_value:
  assumes "getitem df c = Series xs"
  shows "xs = map (row_value df c) (rows df)"
  using assms by (auto simp: getitem_def row_value_def split: list.splits)

lemma normalize_df_rows:
  assumes "distinct (columns (rename df_raw))"
    and "normalize_df date_of num_of df_raw = Inr df"
  shows "distinct (columns df)"
    and "''total_cost'' \<in> set (columns df)"
    and "''additional_cost'' \<in> set (columns df)"
    and "''cost_sum'' \<in> set (columns df)"
    and "length (rows df) = length (rows df_raw)"
    and "\<forall>r\<in>set (rows df). \<exists>a b. row_value df ''total_cost'' r = Num a
            \<and> row_value df ''additional_cost'' r = Num b
            \<and> row_value df ''cost_sum'' r = Num (a + b)"
proof -
  have p: "''total_cost'' \<in> set (columns (rename df_raw))
           \<and> ''additional_cost'' \<in> set (columns (rename df_raw))"
    using normalize_df_absent [OF assms(1), of date_of num_of] assms(2) by auto
  from normalize_df_present [OF assms(1), of date_of num_of] p assms(2)
  obtain tc ac where d: "distinct (columns df)"
    and l: "length (rows df) = length (rows df_raw)"
    and ntc: "list_all is_number tc" and nac: "list_all is_number ac"
    and gt: "getitem df ''total_cost'' = Series tc"
    and ga: "getitem df ''additional_cost'' = Series ac"
    and gc: "getitem df ''cost_sum'' = Series (map (\<lambda>(x, y). add_cells x y) (zip tc ac))"
    by auto
  show "distinct (columns df)" by (rule d)
  show "length (rows df) = length (rows df_raw)" by (rule l)
  show "''total_cost'' \<in> set (columns df)" "''additional_cost'' \<in> set (columns df)"
    "''cost_sum'' \<in> set (columns df)"
    using gt ga gc by (blast dest: getitem_Series_present)+
  have t: "tc = map (row_value df ''total_cost'') (rows df)"
    and a: "ac = map (row_value df ''additional_cost'') (rows df)"
    by (rule getitem_Series_row_value [OF gt], rule getitem_Series_row_value [OF ga])
  have "map (row_value df ''cost_sum'') (rows df)
          = map (\<lambda>(x, y). add_cells x y) (zip tc ac)"
    using getitem_Series_row_value [OF gc] by simp
  also have "\<dots> = map (\<lambda>r. add_cells (row_value df ''total_cost'' r)
                                  (row_value df ''additional_cost'' r)) (rows df)"
    unfolding t a by (simp add: zip_map_map zip_same_conv_map comp_def)
  finally have c: "\<And>r. r \<in> set (rows df) \<Longrightarrow> row_value df ''cost_sum'' r
      = add_cells (row_value df ''total_cost'' r) (row_value df ''additional_cost'' r)"
    by simp
  show "\<forall>r\<in>set (rows df). \<exists>a b. row_value df ''total_cost'' r = Num a
            \<and> row_value df ''additional_cost'' r = Num b
            \<and> row_value df ''cost_sum'' r = Num (a + b)"
  proof
    fix r assume r: "r \<in> set (rows df)"
    have "is_number (row_value df ''total_cost'' r)" "is_number (row_value df ''additional_cost'' r)"
      using ntc nac r unfolding t a by (simp_all add: list_all_iff)
    then obtain x y where "row_value df ''total_cost'' r = Num x"
      "row_value df ''additional_cost'' r = Num y"
      by (cases "row_value df ''total_cost'' r"; cases "row_value df ''additional_cost'' r") auto
    with c [OF r] show "\<exists>a b. row_value df ''total_cost'' r = Num a
            \<and> row_value df ''additional_cost'' r = Num b
            \<and> row_value df ''cost_sum'' r = Num (a + b)"
      by simp
  qed
qed

lemma is_number_numeric: "is_number c \<Longrightarrow> numeric c"
  by (cases c) simp_all

lemma mean_series_all_numbers:
  assumes "list_all is_number xs"
  shows "mean_series xs = Inr (if xs = [] then None
                                else Some (sum_list (map num_val xs) / of_nat (length xs)))"
proof -
  have "list_all numeric xs"
    using assms by (auto simp: list_all_iff intro: is_number_numeric)
  moreover have "filter is_number xs = xs"
    using assms by (simp add: list_all_iff)
  ultimately show ?thesis
    by (simp add: mean_series_def Let_def)
qed

lemma numeric_label_filtered:
  assumes "distinct (columns df)" and "c \<in> set (columns df)"
    and "\<forall>r\<in>set (rows df). is_number (row_value df c r)"
  shows "numeric_label c (df\<lparr>rows := filter P (rows df)\<rparr>)"
    and "list_all is_number (map (row_value df c) (filter P (rows df)))"
  using assms distinct_at_most_once [OF assms(1), of c]
  by (auto simp: numeric_label_def list_all_iff intro: is_number_numeric)

lemma cost_analysis_filtered:
  assumes "distinct (columns (rename df_raw))"
    and "normalize_df date_of num_of df_raw = Inr df0"
    and "df = df0\<lparr>rows := filter P (rows df0)\<rparr>"
  shows "cost_analysis df =
     Inr \<lparr>total_cost_sum = column_total df ''cost_sum'',
          avg_cost_job = (if rows df = [] then None
                          else Some (column_total df ''cost_sum'' / of_nat (length (rows df)))),
          base_cost = column_total df ''total_cost'',
          additional_cost = column_total df ''additional_cost''\<rparr>"
proof -
  note n = normalize_df_rows [OF assms(1,2)]
  note df = assms(3)
  have nums: "\<forall>r\<in>set (rows df0). is_number (row_value df0 ''cost_sum'' r)"
    "\<forall>r\<in>set (rows df0). is_number (row_value df0 ''total_cost'' r)"
    "\<forall>r\<in>set (rows df0). is_number (row_value df0 ''additional_cost'' r)"
    using n(6) by fastforce+
  have lab: "numeric_label ''cost_sum'' df" "numeric_label ''total_cost'' df"
    "numeric_label ''additional_cost'' df"
    unfolding df
    by (rule numeric_label_filtered [OF n(1)], (rule n nums)+)+
  have m: "mean_series (map (row_value df ''cost_sum'') (rows df)) =
      Inr (if rows df = [] then None
           else Some (column_total df ''cost_sum'' / of_nat (length (rows df))))"
    using mean_series_all_numbers [OF numeric_label_filtered(2) [OF n(1) n(4) nums(1), of P]]
    by (simp add: df column_total_def comp_def)
  show ?thesis
    by (simp add: cost_analysis_def series_numeric_label [OF lab(1)]
        series_numeric_label [OF lab(2)] series_numeric_label [OF lab(3)] m)
qed

text \<open>
  C9. On the filtered frame of a run (headers pairwise different after renaming), the
  cost block returns the sum of \<open>cost_sum\<close> over all rows, its mean over all rows, that
  is the sum divided by the number of rows whatever the job ids are (NaN on no row),
  and the sums of the two cost columns.
\<close>

theorem cost_analysis_sums_and_row_mean:
  assumes "distinct (columns (rename df_raw))"
    and "normalize_df date_of num_of df_raw = Inr df0"
    and "apply_filters date_range route_filter df0 = Inr df"
  shows "cost_analysis df =
     Inr \<lparr>total_cost_sum = column_total df ''cost_sum'',
          avg_cost_job = (if rows df = [] then None
                          else Some (column_total df ''cost_sum'' / of_nat (length (rows df)))),
          base_cost = column_total df ''total_cost'',
          additional_cost = column_total df ''additional_cost''\<rparr>"
proof -
  have d: "distinct (columns df0)"
    by (rule normalize_df_rows(1) [OF assms(1,2)])
  have "df = df0\<lparr>rows := filter (stamp_keeps df0 date_range route_filter) (rows df0)\<rparr>"
    using apply_filters_rows [OF distinct_at_most_once distinct_at_most_once, OF d d,
        of date_range route_filter] assms(3)
    by simp
  then show ?thesis
    by (rule cost_analysis_filtered [OF assms(1,2)])
qed

lemma ex_upload_headers: "distinct (columns (rename ex_upload))"
  by (simp add: ex_upload_def header_defs)

lemma ex_upload_normalize:
  "normalize_df (\<lambda>c. None) (\<lambda>c. None) ex_upload = Inr ex_canonical"
  by (simp add: ex_upload_def ex_canonical_def header_defs frame_defs script_defs)

lemma ex_canonical_filter:
  "apply_filters (DateTuple [1, 2]) [] ex_canonical = Inr ex_filtered"
  by (simp add: ex_canonical_def ex_filtered_def frame_defs script_defs)

text \<open>
  On the example the two kept rows both belong to job 1: the mean is 400 / 2 = 200 per
  row, not 400 per job.
\<close>

theorem cost_analysis_sums_and_row_mean_witness:
  "distinct (columns (rename ex_upload))
   \<and> normalize_df (\<lambda>c. None) (\<lambda>c. None) ex_upload = Inr ex_canonical
   \<and> apply_filters (DateTuple [1, 2]) [] ex_canonical = Inr ex_filtered
   \<and> cost_analysis ex_filtered
       = Inr \<lparr>total_cost_sum = 400, avg_cost_job = Some 200, base_cost = 400,
              additional_cost = 0\<rparr>"
  using cost_analysis_sums_and_row_mean [OF ex_upload_headers ex_upload_normalize
      ex_canonical_filter]
    ex_upload_headers ex_upload_normalize ex_canonical_filter
  by (simp add: ex_canonical_def ex_filtered_def column_total_def row_value_def
      positions_def cell_at_def)

section \<open>Distinct jobs per route\<close>

lemma nunique_card: "nunique xs = card (set xs - {Null})"
proof -
  have "set (filter (\<lambda>c. c \<noteq> Null) xs) = set xs - {Null}"
    by auto
  then show ?thesis
    by (simp add: nunique_def length_remdups_card_conv)
qed

lemma set_group_of: "set (group_of ks k xs) = {x. (k, x) \<in> set (zip ks xs)}"
  by (force simp: group_of_def)

lemma group_keys_set: "set (group_keys ks) = set ks - {Null}"
  by (auto simp: group_keys_def)

lemma group_keys_distinct: "distinct (group_keys ks)"
  by (simp add: group_keys_def)

lemma grouped_nunique:
  assumes len: "length ks = length js"
    and disj: "\<And>k1 k2 j. (k1, j) \<in> set (zip ks js) \<Longrightarrow> (k2, j) \<in> set (zip ks js)
                 \<Longrightarrow> j \<noteq> Null \<Longrightarrow> k1 \<noteq> Null \<Longrightarrow> k2 \<noteq> Null \<Longrightarrow> k1 = k2"
  shows "sum_list (map (\<lambda>k. nunique (group_of ks k js)) (group_keys ks)) \<le> nunique js"
    and "Null \<notin> set ks \<Longrightarrow>
           sum_list (map (\<lambda>k. nunique (group_of ks k js)) (group_keys ks)) = nunique js"
proof -
  let ?K = "set ks - {Null}"
  let ?J = "\<lambda>k. {x. (k, x) \<in> set (zip ks js)} - {Null}"
  have fin: "\<And>k. finite (?J k)"
  proof -
    fix k
    have "?J k \<subseteq> set js" by (auto dest: set_zip_rightD)
    then show "finite (?J k)" by (rule finite_subset) simp
  qed
  have "sum_list (map (\<lambda>k. nunique (group_of ks k js)) (group_keys ks))
          = (\<Sum>k\<in>?K. card (?J k))"
    by (simp add: sum_list_distinct_conv_sum_set group_keys_distinct group_keys_set
        nunique_card set_group_of)
  also have "\<dots> = card (\<Union>k\<in>?K. ?J k)"
  proof (rule card_UN_disjoint [symmetric])
    show "finite ?K" by simp
    show "\<forall>k\<in>?K. finite (?J k)" using fin by blast
    show "\<forall>k\<in>?K. \<forall>l\<in>?K. k \<noteq> l \<longrightarrow> ?J k \<inter> ?J l = {}"
      using disj by blast
  qed
  finally have eq: "sum_list (map (\<lambda>k. nunique (group_of ks k js)) (group_keys ks))
          = card (\<Union>k\<in>?K. ?J k)" .
  have sub: "(\<Union>k\<in>?K. ?J k) \<subseteq> set js - {Null}"
    by (auto dest: set_zip_rightD)
  then have "card (\<Union>k\<in>?K. ?J k) \<le> card (set js - {Null})"
    by (intro card_mono) simp_all
  with eq show "sum_list (map (\<lambda>k. nunique (group_of ks k js)) (group_keys ks)) \<le> nunique js"
    by (simp add: nunique_card)
  show "sum_list (map (\<lambda>k. nunique (group_of ks k js)) (group_keys ks)) = nunique js"
    if "Null \<notin> set ks"
  proof -
    have "set js - {Null} \<subseteq> (\<Union>k\<in>?K. ?J k)"
    proof
      fix j assume j: "j \<in> set js - {Null}"
      then obtain i where i: "i < length js" "js ! i = j"
        by (auto simp: in_set_conv_nth)
      with len have "(ks ! i, j) \<in> set (zip ks js)"
        by (auto simp: set_zip)
      moreover from i len that have "ks ! i \<in> ?K"
        by (metis Diff_iff empty_iff insert_iff nth_mem)
      ultimately show "j \<in> (\<Union>k\<in>?K. ?J k)"
        using j by blast
    qed
    with sub have "(\<Union>k\<in>?K. ?J k) = set js - {Null}" by blast
    with eq show ?thesis by (simp add: nunique_card)
  qed
qed

lemma route_group_jobs:
  "route_group ks js cs k = Inr g \<Longrightarrow> route_jobs g = nunique (group_of ks k js)"
  by (auto simp: route_group_def split: sum.splits)

lemma collect_route_jobs:
  "collect (map (route_group ks js cs) keys) = Inr rp
     \<Longrightarrow> map route_jobs rp = map (\<lambda>k. nunique (group_of ks k js)) keys"
proof (induction keys arbitrary: rp)
  case Nil
  then show ?case by simp
next
  case (Cons k keys)
  then show ?case
    by (cases "route_group ks js cs k")
       (auto simp: route_group_jobs split: sum.splits)
qed

lemma series_Inr_row_value:
  "series df c = Inr xs \<Longrightarrow> xs = map (row_value df c) (rows df)"
  by (auto simp: series_def split: selection.splits dest: getitem_Series_row_value)

text \<open>
  C5, as amended. On a frame where no job id stands on rows of two different routes,
  the per-route distinct job counts of \<^verbatim>\<open>route_perf\<close> sum to at most the overall distinct
  job count of the operational summary, and to exactly that count when every row has a
  route.
\<close>

theorem route_jobs_sum_le_total_jobs:
  assumes "route_perf df = Inr rp" and "operational_summary df = Inr s"
    and "one_route_per_job df"
  shows "sum_list (map route_jobs rp) \<le> total_jobs s
         \<and> (every_row_routed df \<longrightarrow> sum_list (map route_jobs rp) = total_jobs s)"
proof -
  let ?ks = "map (row_value df ''route_name'') (rows df)"
  let ?js = "map (row_value df ''job_id'') (rows df)"
  from assms(1) obtain ks js cs where
    ks: "getitem df ''route_name'' = Series ks" and js: "series df ''job_id'' = Inr js"
    and c: "collect (map (route_group ks js cs) (group_keys ks)) = Inr rp"
    by (auto simp: route_perf_def split: selection.splits sum.splits)
  have ks': "ks = ?ks" by (rule getitem_Series_row_value [OF ks])
  have js': "js = ?js" by (rule series_Inr_row_value [OF js])
  have tot: "total_jobs s = nunique ?js"
    using assms(2) js js' by (auto simp: operational_summary_def split: sum.splits)
  have sum: "sum_list (map route_jobs rp)
      = sum_list (map (\<lambda>k. nunique (group_of ?ks k ?js)) (group_keys ?ks))"
    using collect_route_jobs [OF c] by (simp add: ks' js')
  have z: "zip ?ks ?js
      = map (\<lambda>r. (row_value df ''route_name'' r, row_value df ''job_id'' r)) (rows df)"
    by (simp add: zip_map_map zip_same_conv_map comp_def)
  have disj: "k1 = k2"
    if "(k1, j) \<in> set (zip ?ks ?js)" "(k2, j) \<in> set (zip ?ks ?js)"
      "j \<noteq> Null" "k1 \<noteq> Null" "k2 \<noteq> Null" for k1 k2 j
  proof -
    from that(1,2) obtain r1 r2 where "r1 \<in> set (rows df)" "r2 \<in> set (rows df)"
      "k1 = row_value df ''route_name'' r1" "j = row_value df ''job_id'' r1"
      "k2 = row_value df ''route_name'' r2" "j = row_value df ''job_id'' r2"
      unfolding z by auto
    with assms(3) that(3,4,5) show ?thesis
      unfolding one_route_per_job_def by metis
  qed
  have len: "length ?ks = length ?js" by simp
  have "every_row_routed df \<Longrightarrow> Null \<notin> set ?ks"
    by (auto simp: every_row_routed_def)
  with grouped_nunique [of ?ks ?js, OF len disj] sum tot show ?thesis
    by simp
qed

theorem route_jobs_sum_le_total_jobs_witness:
  "route_perf ex_canonical
     = Inr [\<lparr>route_name = Str ''A'', route_jobs = 1, route_cost = 400, avg_cost = Some 200\<rparr>,
            \<lparr>route_name = Str ''B'', route_jobs = 1, route_cost = 50, avg_cost = Some 50\<rparr>]
   \<and> operational_summary ex_canonical
     = Inr \<lparr>total_jobs = 2, total_deliveries = 4, total_items = 9\<rparr>
   \<and> one_route_per_job ex_canonical \<and> every_row_routed ex_canonical
   \<and> sum_list (map route_jobs
        [\<lparr>route_name = Str ''A'', route_jobs = 1, route_cost = 400, avg_cost = Some 200\<rparr>,
         \<lparr>route_name = Str ''B'', route_jobs = 1, route_cost = 50, avg_cost = Some 50\<rparr>])
       = total_jobs \<lparr>total_jobs = 2, total_deliveries = 4, total_items = 9\<rparr>"
proof -
  have rp: "route_perf ex_canonical
     = Inr [\<lparr>route_name = Str ''A'', route_jobs = 1, route_cost = 400, avg_cost = Some 200\<rparr>,
            \<lparr>route_name = Str ''B'', route_jobs = 1, route_cost = 50, avg_cost = Some 50\<rparr>]"
    by (simp add: ex_canonical_def frame_defs script_defs)
  have s: "operational_summary ex_canonical
     = Inr \<lparr>total_jobs = 2, total_deliveries = 4, total_items = 9\<rparr>"
    by (simp add: ex_canonical_def frame_defs script_defs)
  have o: "one_route_per_job ex_canonical"
    by (simp add: ex_canonical_def one_route_per_job_def row_value_def positions_def cell_at_def)
  have e: "every_row_routed ex_canonical"
    by (simp add: ex_canonical_def every_row_routed_def row_value_def positions_def cell_at_def)
  from route_jobs_sum_le_total_jobs [OF rp s o] e rp s o show ?thesis
    by simp
qed

text \<open>
  C5 as stated, without the condition on jobs and routes, fails: job 1 on route A and on
  route B counts once in each route, 2 in sum, and once overall, although every row has
  a route.
\<close>

theorem route_jobs_sum_counterexample:
  "dashboard (\<lambda>c. None) (\<lambda>c. None) ex_shared_upload (DateTuple []) []
     = Inr \<lparr>filtered =
              \<lparr>columns = [''job_id'', ''num_deliveries'', ''num_items'', ''total_cost'',
                          ''additional_cost'', ''route_name'', ''cost_sum''],
               rows = [[Num 1, Num 1, Num 1, Num 100, Num 0, Str ''A'', Num 100],
                       [Num 1, Num 1, Num 1, Num 50, Num 0, Str ''B'', Num 50]]\<rparr>,
            op_summary = \<lparr>total_jobs = 1, total_deliveries = 2, total_items = 2\<rparr>,
            trend = None,
            cost = \<lparr>total_cost_sum = 150, avg_cost_job = Some 75, base_cost = 150,
                    additional_cost = 0\<rparr>,
            routes = Some
              \<lparr>perf = [\<lparr>route_name = Str ''A'', route_jobs = 1, route_cost = 100,
                         avg_cost = Some 100\<rparr>,
                       \<lparr>route_name = Str ''B'', route_jobs = 1, route_cost = 50,
                         avg_cost = Some 50\<rparr>],
               cheapest = \<lparr>route_name = Str ''B'', route_jobs = 1, route_cost = 50,
                            avg_cost = Some 50\<rparr>\<rparr>,
            delivery = None\<rparr>
   \<and> \<not> sum_list (map route_jobs
          [\<lparr>route_name = Str ''A'', route_jobs = 1, route_cost = 100, avg_cost = Some 100\<rparr>,
           \<lparr>route_name = Str ''B'', route_jobs = 1, route_cost = 50, avg_cost = Some 50\<rparr>])
        \<le> total_jobs \<lparr>total_jobs = 1, total_deliveries = 2, total_items = 2\<rparr>"
  by (simp add: ex_shared_upload_def header_defs frame_defs script_defs)

section \<open>Absent columns\<close>

lemma collect_all_Inr:
  assumes "\<And>x. x \<in> set xs \<Longrightarrow> \<exists>y. f x = Inr y"
  shows "\<exists>ys. collect (map f xs) = Inr ys \<and> length ys = length xs"
  using assms
proof (induction xs)
  case Nil
  then show ?case by simp
next
  case (Cons x xs)
  then obtain y ys where "f x = Inr y" "collect (map f xs) = Inr ys" "length ys = length xs"
    by (metis list.set_intros(1,2))
  then show ?case by simp
qed

lemma numeric_group_of:
  assumes "list_all numeric xs"
  shows "list_all numeric (group_of ks k xs)"
proof -
  have "set (group_of ks k xs) \<subseteq> set xs"
    by (auto simp: set_group_of dest: set_zip_rightD)
  with assms show ?thesis
    by (auto simp: list_all_iff)
qed

lemma sum_series_numeric: "list_all numeric xs \<Longrightarrow> \<exists>v. sum_series xs = Inr v"
  by (simp add: sum_series_def)

lemma mean_series_numeric: "list_all numeric xs \<Longrightarrow> \<exists>v. mean_series xs = Inr v"
  by (simp add: mean_series_def Let_def)

lemma numeric_label_series:
  assumes "numeric_label c df"
  shows "series df c = Inr (map (row_value df c) (rows df))"
    and "list_all numeric (map (row_value df c) (rows df))"
  using assms series_numeric_label(1) [OF assms]
  by (simp_all add: numeric_label_def list_all_iff)

lemma trend_df_present:
  assumes "''assign_date'' \<in> set (columns df)" and "at_most_once ''assign_date'' df"
    and "series df ''job_id'' = Inr js"
    and "numeric_label ''num_deliveries'' df" and "numeric_label ''num_items'' df"
  shows "\<exists>t. trend_df df = Inr (Some t)"
proof -
  let ?ks = "map (row_value df ''assign_date'') (rows df)"
  let ?ds = "map (row_value df ''num_deliveries'') (rows df)"
  let ?is = "map (row_value df ''num_items'') (rows df)"
  have g: "getitem df ''assign_date'' = Series ?ks"
    by (rule getitem_present [OF assms(1,2)])
  have "\<exists>y. trend_group ?ks js ?ds ?is k = Inr y" for k
  proof -
    from sum_series_numeric [OF numeric_group_of [OF numeric_label_series(2) [OF assms(4)]]]
    obtain d where "sum_series (group_of ?ks k ?ds) = Inr d" by blast
    moreover
    from sum_series_numeric [OF numeric_group_of [OF numeric_label_series(2) [OF assms(5)]]]
    obtain i where "sum_series (group_of ?ks k ?is) = Inr i" by blast
    ultimately show ?thesis by (simp add: trend_group_def)
  qed
  then obtain t where "collect (map (trend_group ?ks js ?ds ?is) (group_keys ?ks)) = Inr t"
    using collect_all_Inr [of "group_keys ?ks" "trend_group ?ks js ?ds ?is"] by blast
  then show ?thesis
    using assms(1,3) g
    by (simp add: trend_df_def numeric_label_series(1) [OF assms(4)]
        numeric_label_series(1) [OF assms(5)])
qed

lemma route_section_present:
  assumes "''route_name'' \<in> set (columns df)" and "at_most_once ''route_name'' df"
    and "series df ''job_id'' = Inr js"
    and "numeric_label ''cost_sum'' df"
    and "r \<in> set (rows df)" and "row_value df ''route_name'' r \<noteq> Null"
  shows "\<exists>v. route_section df = Inr (Some v)"
proof -
  let ?ks = "map (row_value df ''route_name'') (rows df)"
  let ?cs = "map (row_value df ''cost_sum'') (rows df)"
  have g: "getitem df ''route_name'' = Series ?ks"
    by (rule getitem_present [OF assms(1,2)])
  have "\<exists>y. route_group ?ks js ?cs k = Inr y" for k
  proof -
    note n = numeric_group_of [OF numeric_label_series(2) [OF assms(4)], of ?ks k]
    from sum_series_numeric [OF n] mean_series_numeric [OF n]
    obtain t a where "sum_series (group_of ?ks k ?cs) = Inr t"
      "mean_series (group_of ?ks k ?cs) = Inr a" by blast
    then show ?thesis by (simp add: route_group_def)
  qed
  then obtain rp where rp: "collect (map (route_group ?ks js ?cs) (group_keys ?ks)) = Inr rp"
    and len: "length rp = length (group_keys ?ks)"
    using collect_all_Inr [of "group_keys ?ks" "route_group ?ks js ?cs"] by blast
  have "row_value df ''route_name'' r \<in> set (group_keys ?ks)"
    using assms(5,6) by (simp add: group_keys_set)
  then have "group_keys ?ks \<noteq> []" by auto
  with len have "sort_key (\<lambda>g. avg_key (avg_cost g)) rp \<noteq> []"
    by (metis length_0_conv length_sort)
  then obtain g gs where "sort_key (\<lambda>g. avg_key (avg_cost g)) rp = g # gs"
    by (cases "sort_key (\<lambda>g. avg_key (avg_cost g)) rp") auto
  then have "cheapest_route rp = Inr g"
    by (simp add: cheapest_route_def)
  moreover have "route_perf df = Inr rp"
    using g rp assms(3) by (simp add: route_perf_def numeric_label_series(1) [OF assms(4)])
  ultimately show ?thesis
    using assms(1) by (simp add: route_section_def)
qed

lemma normalize_df_other_columns:
  assumes "distinct (columns (rename df_raw))"
    and "normalize_df date_of num_of df_raw = Inr df0"
  shows "set (columns df0) = insert ''cost_sum'' (set (columns (rename df_raw)))"
    and "c \<notin> {''assign_date'', ''total_cost'', ''additional_cost'', ''cost_sum''}
           \<Longrightarrow> getitem df0 c = getitem (rename df_raw) c"
proof -
  have p: "''total_cost'' \<in> set (columns (rename df_raw))
           \<and> ''additional_cost'' \<in> set (columns (rename df_raw))"
    using normalize_df_absent [OF assms(1), of date_of num_of] assms(2) by auto
  from normalize_df_present [OF assms(1), of date_of num_of] p assms(2)
  have "set (columns df0) = insert ''cost_sum'' (set (columns (rename df_raw)))
      \<and> (\<forall>c. c \<notin> {''assign_date'', ''total_cost'', ''additional_cost'', ''cost_sum''}
             \<longrightarrow> getitem df0 c = getitem (rename df_raw) c)"
    by auto
  then show "set (columns df0) = insert ''cost_sum'' (set (columns (rename df_raw)))"
    and "c \<notin> {''assign_date'', ''total_cost'', ''additional_cost'', ''cost_sum''}
           \<Longrightarrow> getitem df0 c = getitem (rename df_raw) c"
    by blast+
qed

lemma numeric_label_transfer:
  assumes "distinct (columns (rename df_raw))"
    and "normalize_df date_of num_of df_raw = Inr df0"
    and "c \<notin> {''assign_date'', ''total_cost'', ''additional_cost'', ''cost_sum''}"
    and "numeric_label c (rename df_raw)"
  shows "numeric_label c (df0\<lparr>rows := filter P (rows df0)\<rparr>)"
proof -
  let ?d0 = "rename df_raw"
  have g0: "getitem ?d0 c = Series (map (row_value ?d0 c) (rows ?d0))"
    using assms(4) getitem_present [of c ?d0] by (simp add: numeric_label_def)
  then have g: "getitem df0 c = Series (map (row_value ?d0 c) (rows ?d0))"
    using normalize_df_other_columns(2) [OF assms(1,2,3)] by simp
  have d: "distinct (columns df0)"
    by (rule normalize_df_rows(1) [OF assms(1,2)])
  have pres: "c \<in> set (columns df0)"
    by (rule getitem_Series_present [OF g])
  have "map (row_value df0 c) (rows df0) = map (row_value ?d0 c) (rows ?d0)"
    using getitem_Series_row_value [OF g] by simp
  moreover have "list_all numeric (map (row_value ?d0 c) (rows ?d0))"
    using assms(4) by (simp add: numeric_label_def list_all_iff)
  ultimately have "list_all numeric (map (row_value df0 c) (rows df0))"
    by simp
  then show ?thesis
    using pres distinct_at_most_once [OF d, of c]
    by (auto simp: numeric_label_def list_all_iff)
qed

lemma series_transfer:
  assumes "distinct (columns (rename df_raw))"
    and "normalize_df date_of num_of df_raw = Inr df0"
    and "c \<notin> {''assign_date'', ''total_cost'', ''additional_cost'', ''cost_sum''}"
    and "c \<in> set (columns (rename df_raw))"
    and "df = df0\<lparr>rows := filter P (rows df0)\<rparr>"
  shows "series df c = Inr (map (row_value df c) (rows df))"
proof -
  have "c \<in> set (columns df0)"
    using assms(4) normalize_df_other_columns(1) [OF assms(1,2)] by simp
  moreover have "distinct (columns df0)"
    by (rule normalize_df_rows(1) [OF assms(1,2)])
  ultimately show ?thesis
    using getitem_present [of c df] distinct_at_most_once [of df0 c]
    by (simp add: assms(5) series_def)
qed

lemma series_absent: "c \<notin> set (columns df) \<Longrightarrow> series df c = Inl KeyError"
  by (simp add: series_def getitem_absent)

lemma numeric_label_cost_sum:
  assumes "distinct (columns (rename df_raw))"
    and "normalize_df date_of num_of df_raw = Inr df0"
  shows "numeric_label ''cost_sum'' (df0\<lparr>rows := filter P (rows df0)\<rparr>)"
proof -
  note n = normalize_df_rows [OF assms]
  have "\<forall>r\<in>set (rows df0). is_number (row_value df0 ''cost_sum'' r)"
    using n(6) by fastforce
  then show ?thesis
    by (rule numeric_label_filtered(1) [OF n(1) n(4)])
qed

lemma run_until_summary:
  assumes "distinct (columns (rename df_raw))"
    and "''total_cost'' \<in> set (columns (rename df_raw))"
    and "''additional_cost'' \<in> set (columns (rename df_raw))"
  shows "\<exists>df0 P. normalize_df date_of num_of df_raw = Inr df0
      \<and> apply_filters date_range route_filter df0 = Inr (df0\<lparr>rows := filter P (rows df0)\<rparr>)"
proof -
  from normalize_df_present [OF assms, of date_of num_of]
  obtain df0 where n: "normalize_df date_of num_of df_raw = Inr df0"
    and d: "distinct (columns df0)"
    by blast
  from apply_filters_rows [OF distinct_at_most_once [OF d] distinct_at_most_once [OF d]] n
  show ?thesis by blast
qed

text \<open>
  C3, as amended. On an upload with both cost columns (headers pairwise different after
  renaming): if it has the job id and numeric delivery and item counts, the run
  completes whichever of the date, route and success or failure columns are absent.
  Exactly the views of an absent column are skipped (the trend without the date, the
  route views without the route, the delivery percentages without either count), and
  the operational summary, the cost analysis and the views of the columns that are
  there are produced; a count column that is there must be numeric, and with the route
  column some filtered row must have a route (the empty route table is the case of C4).
  The job id and the two counts are required: without the job id or the delivery
  count, or without the item count beside a numeric delivery count, the run ends in
  KeyError.
\<close>

theorem absent_optional_columns_are_skipped:
  assumes "distinct (columns (rename df_raw))"
    and "''total_cost'' \<in> set (columns (rename df_raw))"
    and "''additional_cost'' \<in> set (columns (rename df_raw))"
  shows "(''job_id'' \<in> set (columns (rename df_raw))
       \<and> numeric_label ''num_deliveries'' (rename df_raw)
       \<and> numeric_label ''num_items'' (rename df_raw)
       \<and> (''success_count'' \<in> set (columns (rename df_raw))
            \<and> ''fail_count'' \<in> set (columns (rename df_raw))
          \<longrightarrow> numeric_label ''success_count'' (rename df_raw)
              \<and> numeric_label ''fail_count'' (rename df_raw))
       \<and> (''route_name'' \<in> set (columns (rename df_raw))
          \<longrightarrow> (\<exists>df0 df r. normalize_df date_of num_of df_raw = Inr df0
                \<and> apply_filters date_range route_filter df0 = Inr df
                \<and> r \<in> set (rows df) \<and> row_value df ''route_name'' r \<noteq> Null))
      \<longrightarrow> (\<exists>out. dashboard date_of num_of df_raw date_range route_filter = Inr out
            \<and> (trend out = None \<longleftrightarrow> ''assign_date'' \<notin> set (columns (rename df_raw)))
            \<and> (routes out = None \<longleftrightarrow> ''route_name'' \<notin> set (columns (rename df_raw)))
            \<and> (delivery out = None \<longleftrightarrow> ''success_count'' \<notin> set (columns (rename df_raw))
                                          \<or> ''fail_count'' \<notin> set (columns (rename df_raw)))
            \<and> op_summary out =
                \<lparr>total_jobs = nunique (map (row_value (filtered out) ''job_id'')
                                         (rows (filtered out))),
                 total_deliveries = column_total (filtered out) ''num_deliveries'',
                 total_items = column_total (filtered out) ''num_items''\<rparr>
            \<and> cost out =
                \<lparr>total_cost_sum = column_total (filtered out) ''cost_sum'',
                 avg_cost_job = (if rows (filtered out) = [] then None
                    else Some (column_total (filtered out) ''cost_sum''
                               / of_nat (length (rows (filtered out))))),
                 base_cost = column_total (filtered out) ''total_cost'',
                 additional_cost = column_total (filtered out) ''additional_cost''\<rparr>))
    \<and> (''job_id'' \<notin> set (columns (rename df_raw))
        \<or> ''num_deliveries'' \<notin> set (columns (rename df_raw))
        \<or> (''num_items'' \<notin> set (columns (rename df_raw))
            \<and> numeric_label ''num_deliveries'' (rename df_raw))
      \<longrightarrow> dashboard date_of num_of df_raw date_range route_filter = Inl KeyError)"
proof -
  let ?C = "set (columns (rename df_raw))"
  from run_until_summary [OF assms, of date_of num_of date_range route_filter]
  obtain df0 P where n: "normalize_df date_of num_of df_raw = Inr df0"
    and f0: "apply_filters date_range route_filter df0 = Inr (df0\<lparr>rows := filter P (rows df0)\<rparr>)"
    by blast
  define df where "df = df0\<lparr>rows := filter P (rows df0)\<rparr>"
  have f: "apply_filters date_range route_filter df0 = Inr df"
    using f0 by (simp add: df_def)
  have cols: "set (columns df) = insert ''cost_sum'' ?C"
    using normalize_df_other_columns(1) [OF assms(1) n] by (simp add: df_def)
  have dist: "distinct (columns df)"
    using normalize_df_rows(1) [OF assms(1) n] by (simp add: df_def)
  note amo = distinct_at_most_once [OF dist]
  have ser: "series df c = Inr (map (row_value df c) (rows df))"
    if "c \<notin> {''assign_date'', ''total_cost'', ''additional_cost'', ''cost_sum''}" "c \<in> ?C" for c
    by (rule series_transfer [OF assms(1) n that df_def])
  have lab: "numeric_label c df"
    if "c \<notin> {''assign_date'', ''total_cost'', ''additional_cost'', ''cost_sum''}"
      "numeric_label c (rename df_raw)" for c
    unfolding df_def by (rule numeric_label_transfer [OF assms(1) n that])
  have c: "cost_analysis df =
     Inr \<lparr>total_cost_sum = column_total df ''cost_sum'',
          avg_cost_job = (if rows df = [] then None
                          else Some (column_total df ''cost_sum'' / of_nat (length (rows df)))),
          base_cost = column_total df ''total_cost'',
          additional_cost = column_total df ''additional_cost''\<rparr>"
    by (rule cost_analysis_filtered [OF assms(1) n df_def])
  have cs: "numeric_label ''cost_sum'' df"
    unfolding df_def by (rule numeric_label_cost_sum [OF assms(1) n])
  show ?thesis
  proof (intro conjI impI)
    assume h: "''job_id'' \<in> ?C
       \<and> numeric_label ''num_deliveries'' (rename df_raw)
       \<and> numeric_label ''num_items'' (rename df_raw)
       \<and> (''success_count'' \<in> ?C \<and> ''fail_count'' \<in> ?C
          \<longrightarrow> numeric_label ''success_count'' (rename df_raw)
              \<and> numeric_label ''fail_count'' (rename df_raw))
       \<and> (''route_name'' \<in> ?C
          \<longrightarrow> (\<exists>df0 df r. normalize_df date_of num_of df_raw = Inr df0
                \<and> apply_filters date_range route_filter df0 = Inr df
                \<and> r \<in> set (rows df) \<and> row_value df ''route_name'' r \<noteq> Null))"
    have j: "series df ''job_id'' = Inr (map (row_value df ''job_id'') (rows df))"
      using h by (intro ser) simp_all
    have nd: "numeric_label ''num_deliveries'' df" and ni: "numeric_label ''num_items'' df"
      using h by (auto intro!: lab)
    have s: "operational_summary df =
        Inr \<lparr>total_jobs = nunique (map (row_value df ''job_id'') (rows df)),
             total_deliveries = column_total df ''num_deliveries'',
             total_items = column_total df ''num_items''\<rparr>"
      by (simp add: operational_summary_def j series_numeric_label [OF nd]
          series_numeric_label [OF ni])
    have t: "\<exists>t. trend_df df = Inr t \<and> (t = None \<longleftrightarrow> ''assign_date'' \<notin> ?C)"
    proof (cases "''assign_date'' \<in> ?C")
      case True
      then have "''assign_date'' \<in> set (columns df)" using cols by simp
      from trend_df_present [OF this amo j nd ni] True show ?thesis by auto
    next
      case False
      then have "''assign_date'' \<notin> set (columns df)" using cols by simp
      with False show ?thesis by (simp add: trend_df_def)
    qed
    have r: "\<exists>v. route_section df = Inr v \<and> (v = None \<longleftrightarrow> ''route_name'' \<notin> ?C)"
    proof (cases "''route_name'' \<in> ?C")
      case True
      then have p: "''route_name'' \<in> set (columns df)" using cols by simp
      from h True n f obtain r where "r \<in> set (rows df)" "row_value df ''route_name'' r \<noteq> Null"
        by auto
      from route_section_present [OF p amo j cs this] True show ?thesis by auto
    next
      case False
      then have "''route_name'' \<notin> set (columns df)" using cols by simp
      with False show ?thesis by (simp add: route_section_def)
    qed
    have d: "\<exists>v. delivery_performance df = Inr v
        \<and> (v = None \<longleftrightarrow> ''success_count'' \<notin> ?C \<or> ''fail_count'' \<notin> ?C)"
    proof (cases "''success_count'' \<in> ?C \<and> ''fail_count'' \<in> ?C")
      case True
      with h have "numeric_label ''success_count'' df" "numeric_label ''fail_count'' df"
        by (auto intro!: lab)
      from delivery_performance_numeric [OF this] True show ?thesis
        by (simp add: Let_def)
    next
      case False
      then have "''success_count'' \<notin> set (columns df) \<or> ''fail_count'' \<notin> set (columns df)"
        using cols by auto
      with False show ?thesis by (auto simp: delivery_performance_def)
    qed
    from t r d obtain tv rv dv where
      "trend_df df = Inr tv" "tv = None \<longleftrightarrow> ''assign_date'' \<notin> ?C"
      "route_section df = Inr rv" "rv = None \<longleftrightarrow> ''route_name'' \<notin> ?C"
      "delivery_performance df = Inr dv"
      "dv = None \<longleftrightarrow> ''success_count'' \<notin> ?C \<or> ''fail_count'' \<notin> ?C"
      by blast
    then show "\<exists>out. dashboard date_of num_of df_raw date_range route_filter = Inr out
            \<and> (trend out = None \<longleftrightarrow> ''assign_date'' \<notin> ?C)
            \<and> (routes out = None \<longleftrightarrow> ''route_name'' \<notin> ?C)
            \<and> (delivery out = None \<longleftrightarrow> ''success_count'' \<notin> ?C \<or> ''fail_count'' \<notin> ?C)
            \<and> op_summary out =
                \<lparr>total_jobs = nunique (map (row_value (filtered out) ''job_id'')
                                         (rows (filtered out))),
                 total_deliveries = column_total (filtered out) ''num_deliveries'',
                 total_items = column_total (filtered out) ''num_items''\<rparr>
            \<and> cost out =
                \<lparr>total_cost_sum = column_total (filtered out) ''cost_sum'',
                 avg_cost_job = (if rows (filtered out) = [] then None
                    else Some (column_total (filtered out) ''cost_sum''
                               / of_nat (length (rows (filtered out))))),
                 base_cost = column_total (filtered out) ''total_cost'',
                 additional_cost = column_total (filtered out) ''additional_cost''\<rparr>"
      by (simp add: dashboard_def n f s c)
  next
    assume h: "''job_id'' \<notin> ?C \<or> ''num_deliveries'' \<notin> ?C
        \<or> (''num_items'' \<notin> ?C \<and> numeric_label ''num_deliveries'' (rename df_raw))"
    have absent: "series df c = Inl KeyError" if "c \<notin> ?C" "c \<noteq> ''cost_sum''" for c
      using that cols by (intro series_absent) simp
    have "operational_summary df = Inl KeyError"
    proof (cases "''job_id'' \<in> ?C")
      case False
      then show ?thesis by (simp add: operational_summary_def absent)
    next
      case True
      then have j: "series df ''job_id'' = Inr (map (row_value df ''job_id'') (rows df))"
        by (intro ser) simp_all
      show ?thesis
      proof (cases "''num_deliveries'' \<in> ?C")
        case False
        then show ?thesis by (simp add: operational_summary_def j absent)
      next
        case nd: True
        with h True have ni: "''num_items'' \<notin> ?C"
          and l: "numeric_label ''num_deliveries'' (rename df_raw)"
          by auto
        have "numeric_label ''num_deliveries'' df"
          using l by (intro lab) simp_all
        then show ?thesis
          using ni by (simp add: operational_summary_def j series_numeric_label absent)
      qed
    qed
    then show "dashboard date_of num_of df_raw date_range route_filter = Inl KeyError"
      by (simp add: dashboard_def n f)
  qed
qed

lemma ex_shared_normalize:
  "normalize_df (\<lambda>c. None) (\<lambda>c. None) ex_shared_upload = Inr ex_shared_canonical"
  by (simp add: ex_shared_upload_def ex_shared_canonical_def header_defs frame_defs script_defs)

lemma ex_shared_filter:
  "apply_filters (DateTuple []) [] ex_shared_canonical = Inr ex_shared_canonical"
  by (simp add: ex_shared_canonical_def frame_defs script_defs)

theorem absent_optional_columns_are_skipped_witness:
  "distinct (columns (rename ex_shared_upload))
   \<and> ''total_cost'' \<in> set (columns (rename ex_shared_upload))
   \<and> ''additional_cost'' \<in> set (columns (rename ex_shared_upload))
   \<and> ''job_id'' \<in> set (columns (rename ex_shared_upload))
   \<and> numeric_label ''num_deliveries'' (rename ex_shared_upload)
   \<and> numeric_label ''num_items'' (rename ex_shared_upload)
   \<and> ''assign_date'' \<notin> set (columns (rename ex_shared_upload))
   \<and> ''route_name'' \<in> set (columns (rename ex_shared_upload))
   \<and> ''success_count'' \<notin> set (columns (rename ex_shared_upload))
   \<and> normalize_df (\<lambda>c. None) (\<lambda>c. None) ex_shared_upload = Inr ex_shared_canonical
   \<and> apply_filters (DateTuple []) [] ex_shared_canonical = Inr ex_shared_canonical
   \<and> row_value ex_shared_canonical ''route_name'' (hd (rows ex_shared_canonical)) \<noteq> Null
   \<and> (\<exists>out. dashboard (\<lambda>c. None) (\<lambda>c. None) ex_shared_upload (DateTuple []) [] = Inr out
        \<and> trend out = None \<and> routes out \<noteq> None \<and> delivery out = None)
   \<and> distinct (columns (rename ex_no_num_items))
   \<and> ''total_cost'' \<in> set (columns (rename ex_no_num_items))
   \<and> ''additional_cost'' \<in> set (columns (rename ex_no_num_items))
   \<and> ''num_items'' \<notin> set (columns (rename ex_no_num_items))
   \<and> numeric_label ''num_deliveries'' (rename ex_no_num_items)
   \<and> dashboard (\<lambda>c. None) (\<lambda>c. None) ex_no_num_items (DateTuple []) [] = Inl KeyError"
proof -
  have h: "distinct (columns (rename ex_shared_upload))"
    "''total_cost'' \<in> set (columns (rename ex_shared_upload))"
    "''additional_cost'' \<in> set (columns (rename ex_shared_upload))"
    "''job_id'' \<in> set (columns (rename ex_shared_upload))"
    "numeric_label ''num_deliveries'' (rename ex_shared_upload)"
    "numeric_label ''num_items'' (rename ex_shared_upload)"
    "''assign_date'' \<notin> set (columns (rename ex_shared_upload))"
    "''route_name'' \<in> set (columns (rename ex_shared_upload))"
    "''success_count'' \<notin> set (columns (rename ex_shared_upload))"
    by (simp_all add: ex_shared_upload_def header_defs numeric_label_def spec_defs
        positions_def cell_at_def)
  have r: "hd (rows ex_shared_canonical) \<in> set (rows ex_shared_canonical)"
    "row_value ex_shared_canonical ''route_name'' (hd (rows ex_shared_canonical)) \<noteq> Null"
    by (simp_all add: ex_shared_canonical_def row_value_def positions_def cell_at_def)
  have g: "distinct (columns (rename ex_no_num_items))"
    "''total_cost'' \<in> set (columns (rename ex_no_num_items))"
    "''additional_cost'' \<in> set (columns (rename ex_no_num_items))"
    "''num_items'' \<notin> set (columns (rename ex_no_num_items))"
    "numeric_label ''num_deliveries'' (rename ex_no_num_items)"
    by (simp_all add: ex_no_num_items_def header_defs numeric_label_def spec_defs
        positions_def cell_at_def)
  note a = absent_optional_columns_are_skipped [OF h(1-3),
      of "\<lambda>c. None" "\<lambda>c. None" "DateTuple []" "[]"]
  note b = absent_optional_columns_are_skipped [OF g(1-3),
      of "\<lambda>c. None" "\<lambda>c. None" "DateTuple []" "[]"]
  have route: "\<exists>df0 df r. normalize_df (\<lambda>c. None) (\<lambda>c. None) ex_shared_upload = Inr df0
      \<and> apply_filters (DateTuple []) [] df0 = Inr df
      \<and> r \<in> set (rows df) \<and> row_value df ''route_name'' r \<noteq> Null"
    using ex_shared_normalize ex_shared_filter r by blast
  from a h route obtain out where
    "dashboard (\<lambda>c. None) (\<lambda>c. None) ex_shared_upload (DateTuple []) [] = Inr out"
    "trend out = None" "routes out \<noteq> None" "delivery out = None"
    by auto
  moreover from b g
  have "dashboard (\<lambda>c. None) (\<lambda>c. None) ex_no_num_items (DateTuple []) [] = Inl KeyError"
    by blast
  ultimately show ?thesis
    using h g r(2) ex_shared_normalize ex_shared_filter by blast
qed

text \<open>
  C3 as stated fails for the columns that lines 64 to 66 read without a guard: on an
  upload with both cost columns and no \<^verbatim>\<open>job_id\<close> column the run ends in KeyError.
\<close>

theorem missing_job_id_counterexample:
  "dashboard (\<lambda>c. None) (\<lambda>c. None) ex_no_job_id (DateTuple []) [] = Inl KeyError"
  by (simp add: ex_no_job_id_def header_defs frame_defs script_defs)

end
